theory Spec2Isabelle
  imports Complex_Main "HOL-Library.Sublist"
begin

chapter \<open>The embedding\<close>

section \<open>JavaScript values used by the bot\<close>

text \<open>
  Strings are lists of characters.  An optional field (\<open>undefined\<close> or \<open>null\<close> in the
  source) is \<open>None\<close>.  The source tests most values by truthiness: a string is truthy
  when it is present and not empty, a number when it is present and neither \<open>0\<close> nor
  \<open>NaN\<close>.  Numbers that hold a count of seconds or a timestamp in milliseconds are
  integers; where the source can produce \<open>NaN\<close> (an unparseable date) the number is
  \<open>None\<close>, which every truthiness test of the source treats like \<open>undefined\<close>.
\<close>

definition truthy_str :: "string option \<Rightarrow> bool" where
  "truthy_str s = (case s of None \<Rightarrow> False | Some t \<Rightarrow> t \<noteq> [])"

definition truthy_num :: "int option \<Rightarrow> bool" where
  "truthy_num n = (case n of None \<Rightarrow> False | Some k \<Rightarrow> k \<noteq> 0)"

text \<open>\<open>s.includes(t)\<close>: \<open>t\<close> occurs in \<open>s\<close> as a contiguous run.\<close>

fun str_includes :: "string \<Rightarrow> string \<Rightarrow> bool" where
  "str_includes [] t = (t = [])"
| "str_includes (c # cs) t = (prefix t (c # cs) \<or> str_includes cs t)"

text \<open>The template \<open>`Bearer ${authToken}`\<close>; a \<open>null\<close> token prints as \<open>null\<close>.\<close>

definition bearer :: "string option \<Rightarrow> string" where
  "bearer t = ''Bearer '' @ (case t of None \<Rightarrow> ''null'' | Some s \<Rightarrow> s)"

section \<open>Token store (\<open>utils/api.ts\<close>)\<close>

text \<open>
  The module-level variables \<open>authToken\<close> and \<open>tokenExpiry\<close>, the default
  \<open>Authorization\<close> header of the axios instance, and the delays (in milliseconds) of the
  timers that \<open>setAuthToken\<close> schedules.  The timer's callback only writes a log line.
\<close>

record token_store =
  authToken :: "string option"
  tokenExpiry :: "int option"
  defaultAuthorization :: "string option"
  timers :: "int list"

definition day_seconds :: int where
  "day_seconds = 24 * 60 * 60"

definition bufferTime :: int where
  "bufferTime = 5 * 60 * 1000"

text \<open>\<open>setAuthToken(token, expiresIn?)\<close>, called when \<open>Date.now()\<close> reads \<open>now\<close>.\<close>

definition setAuthToken :: "string \<Rightarrow> int option \<Rightarrow> int \<Rightarrow> token_store \<Rightarrow> token_store" where
  "setAuthToken token expiresIn now st =
     (let st1 = st\<lparr>authToken := Some token,
                    defaultAuthorization := Some (bearer (Some token))\<rparr>;
          st2 = (if truthy_num expiresIn
                 then st1\<lparr>tokenExpiry := Some (now + the expiresIn * 1000)\<rparr>
                 else st1\<lparr>tokenExpiry := Some (now + day_seconds * 1000)\<rparr>)
      in if truthy_num expiresIn
         then st2\<lparr>timers := timers st2 @ [(the expiresIn - 300) * 1000]\<rparr>
         else st2)"

definition clearAuthToken :: "token_store \<Rightarrow> token_store" where
  "clearAuthToken st = st\<lparr>authToken := None, tokenExpiry := None, defaultAuthorization := None\<rparr>"

text \<open>\<open>isTokenExpired()\<close>; \<open>!tokenExpiry\<close> holds for \<open>null\<close> and for \<open>0\<close>.\<close>

definition isTokenExpired :: "int \<Rightarrow> token_store \<Rightarrow> bool" where
  "isTokenExpired now st =
     (if \<not> truthy_num (tokenExpiry st) then False
      else now > the (tokenExpiry st) - bufferTime)"

section \<open>Remote API client (\<open>utils/api.ts\<close>) and token refresh (\<open>services/auth.service.ts\<close>)\<close>

text \<open>
  A request configuration holds what the interceptors read and write: the method and
  path, the \<open>Authorization\<close> header and the \<open>_retry\<close> mark.  A response holds its status
  and, of its body, the two fields the refresh reads.  A truthy \<open>expireAt\<close> either parses
  to an instant (milliseconds) or does not.
\<close>

datatype http_method = GET | POST

record config =
  meth :: http_method
  url :: string
  authorization :: "string option"
  retry :: bool

datatype js_date = Instant int | InvalidDate

record resp_data =
  accessToken :: "string option"
  expireAt :: "js_date option"

record response =
  status :: nat
  data :: "resp_data option"

text \<open>A rejected call: the error carries the response, when there was one, and the configuration.\<close>

record api_error =
  err_response :: "response option"
  err_config :: config

record token_info =
  token :: string
  expiresIn :: "int option"

datatype log_line =
    TokenExpiredRefreshing
  | TokenRefreshedSuccessfully
  | FailedToRefreshToken
  | UnauthorizedRefreshing
  | ErrorRefreshingToken

text \<open>
  What the network does with the \<open>k\<close>-th request put on the wire: it answers with a
  response or with none (connection error, timeout), after some milliseconds.
\<close>

record exchange =
  answer :: "response option"
  elapsed :: nat

text \<open>
  The state the API layer works on: the token store, the clock read by \<open>Date.now()\<close>, the
  console, and the requests that were put on the wire, in order.
\<close>

record api_state =
  store :: token_store
  now :: int
  console :: "log_line list"
  wire :: "config list"

definition log :: "log_line \<Rightarrow> api_state \<Rightarrow> api_state" where
  "log l w = w\<lparr>console := console w @ [l]\<rparr>"

text \<open>
  An awaited call either never settles (\<open>None\<close>) or settles, rejected (\<open>Inl\<close>) or
  fulfilled (\<open>Inr\<close>), in a new state.
\<close>

type_synonym 'a settled = "((api_error + 'a) \<times> api_state) option"

type_synonym api_fun = "config \<Rightarrow> api_state \<Rightarrow> response settled"

text \<open>axios merges the instance's default headers into the configuration before the interceptors run.\<close>

definition mergeConfig :: "config \<Rightarrow> api_state \<Rightarrow> config" where
  "mergeConfig cfg w =
     (case authorization cfg of
        Some a \<Rightarrow> cfg
      | None \<Rightarrow> cfg\<lparr>authorization := defaultAuthorization (store w)\<rparr>)"

text \<open>The adapter: the request goes on the wire; a status outside 200..299 rejects.\<close>

definition dispatchRequest :: "(nat \<Rightarrow> exchange) \<Rightarrow> config \<Rightarrow> api_state \<Rightarrow> (api_error + response) \<times> api_state" where
  "dispatchRequest srv cfg w =
     (let ex = srv (length (wire w));
          w1 = w\<lparr>wire := wire w @ [cfg], now := now w + int (elapsed ex)\<rparr>
      in case answer ex of
           None \<Rightarrow> (Inl \<lparr>err_response = None, err_config = cfg\<rparr>, w1)
         | Some r \<Rightarrow>
             if 200 \<le> status r \<and> status r < 300 then (Inr r, w1)
             else (Inl \<lparr>err_response = Some r, err_config = cfg\<rparr>, w1))"

text \<open>
  \<open>expireAt ? Math.floor((new Date(expireAt).getTime() - Date.now()) / 1000) : 24 * 60 * 60\<close>;
  an unparseable date gives \<open>NaN\<close>.
\<close>

definition seconds_until :: "js_date option \<Rightarrow> int \<Rightarrow> int option" where
  "seconds_until ea clock =
     (case ea of
        None \<Rightarrow> Some day_seconds
      | Some (Instant t) \<Rightarrow> Some ((t - clock) div 1000)
      | Some InvalidDate \<Rightarrow> None)"

text \<open>
  \<open>refreshToken()\<close>: posts to the refresh endpoint through the same axios instance
  (\<open>api\<close>, here the parameter), inside \<open>try\<close>; the \<open>catch\<close> logs and returns \<open>null\<close>.
\<close>

definition refresh_config :: config where
  "refresh_config = \<lparr>meth = POST, url = ''/auth/refresh-token'', authorization = None, retry = False\<rparr>"

definition refreshToken :: "api_fun \<Rightarrow> api_state \<Rightarrow> (token_info option) settled" where
  "refreshToken api w =
     (case api refresh_config w of
        None \<Rightarrow> None
      | Some (Inl e, w1) \<Rightarrow> Some (Inr None, log ErrorRefreshingToken w1)
      | Some (Inr r, w1) \<Rightarrow>
          (case data r of
             None \<Rightarrow> Some (Inr None, w1)
           | Some d \<Rightarrow>
               if truthy_str (accessToken d)
               then Some (Inr (Some \<lparr>token = the (accessToken d),
                                     expiresIn = seconds_until (expireAt d) (now w1)\<rparr>), w1)
               else Some (Inr None, w1)))"

text \<open>
  Both interceptors store a refreshed token by assigning \<open>authToken\<close> and \<open>tokenExpiry\<close>
  directly; the default header keeps the old value.
\<close>

definition store_refreshed :: "token_info \<Rightarrow> api_state \<Rightarrow> api_state" where
  "store_refreshed nt w =
     w\<lparr>store := (store w)\<lparr>authToken := Some (token nt),
                           tokenExpiry := Some (now w +
                             (if truthy_num (expiresIn nt) then the (expiresIn nt) else day_seconds) * 1000)\<rparr>\<rparr>"

definition with_bearer :: "config \<Rightarrow> api_state \<Rightarrow> config" where
  "with_bearer cfg w = cfg\<lparr>authorization := Some (bearer (authToken (store w)))\<rparr>"

text \<open>
  The request interceptor.  The \<open>Inl\<close> case is the \<open>catch\<close> block, which returns the
  configuration as it is.
\<close>

definition request_interceptor :: "api_fun \<Rightarrow> config \<Rightarrow> api_state \<Rightarrow> (config \<times> api_state) option" where
  "request_interceptor api cfg w =
     (if truthy_str (authToken (store w)) then
        if isTokenExpired (now w) (store w) then
          (case refreshToken api (log TokenExpiredRefreshing w) of
             None \<Rightarrow> None
           | Some (Inr (Some nt), w1) \<Rightarrow>
               (let w2 = log TokenRefreshedSuccessfully (store_refreshed nt w1)
                in Some (with_bearer cfg w2, w2))
           | Some (Inr None, w1) \<Rightarrow> Some (with_bearer cfg w1, w1)
           | Some (Inl e, w1) \<Rightarrow>
               (let w2 = log FailedToRefreshToken w1
                in Some (cfg, w2\<lparr>store := clearAuthToken (store w2)\<rparr>)))
        else Some (with_bearer cfg w, w)
      else Some (cfg, w))"

text \<open>
  The response interceptor, on a rejected call.  The retry \<open>return api(originalRequest)\<close>
  is returned without \<open>await\<close>, so its outcome is the outcome of the call.
\<close>

definition response_interceptor :: "api_fun \<Rightarrow> api_error \<Rightarrow> api_state \<Rightarrow> response settled" where
  "response_interceptor api err w =
     (let originalRequest = err_config err
      in if (case err_response err of None \<Rightarrow> False | Some r \<Rightarrow> status r = 401)
            \<and> \<not> retry originalRequest
         then
           (let marked = originalRequest\<lparr>retry := True\<rparr>;
                err1 = err\<lparr>err_config := marked\<rparr>
            in case refreshToken api (log UnauthorizedRefreshing w) of
                 None \<Rightarrow> None
               | Some (Inr (Some nt), w1) \<Rightarrow>
                   (let w2 = store_refreshed nt w1
                    in api (with_bearer marked w2) w2)
               | Some (Inr None, w1) \<Rightarrow> Some (Inl err1, w1)
               | Some (Inl e, w1) \<Rightarrow>
                   (let w2 = log FailedToRefreshToken w1
                    in Some (Inl err1, w2\<lparr>store := clearAuthToken (store w2)\<rparr>)))
         else Some (Inl err, w))"

text \<open>
  One call through the instance: merge, request interceptor, adapter, response
  interceptor.  The nested calls (\<open>refreshToken\<close>'s post, the retry) go through the
  instance again; \<open>api_call\<close> bounds their nesting depth by its fuel and is \<open>None\<close>
  when the nesting is deeper.
\<close>

definition api_request :: "(nat \<Rightarrow> exchange) \<Rightarrow> api_fun \<Rightarrow> api_fun" where
  "api_request srv api cfg w =
     (case request_interceptor api (mergeConfig cfg w) w of
        None \<Rightarrow> None
      | Some (cfg1, w1) \<Rightarrow>
          (case dispatchRequest srv cfg1 w1 of
             (Inr resp, w2) \<Rightarrow> Some (Inr resp, w2)
           | (Inl err, w2) \<Rightarrow> response_interceptor api err w2))"

primrec api_call :: "(nat \<Rightarrow> exchange) \<Rightarrow> nat \<Rightarrow> api_fun" where
  "api_call srv 0 = (\<lambda>cfg w. None)"
| "api_call srv (Suc n) = api_request srv (api_call srv n)"

subsection \<open>Scenarios of the API layer\<close>

text \<open>
  A store holding the token \<open>old\<close>, valid until \<open>1000000000\<close>; a clock far from the expiry
  and a clock inside the five minute buffer; a call to list the wallets; and four
  networks: one answers 401 and then 500, one answers 401, then a new token, then 200,
  one answers every request with 401 (the token was revoked), one answers every request
  with a new token.
\<close>

definition store_old :: token_store where
  "store_old = \<lparr>authToken = Some ''old'', tokenExpiry = Some 1000000000,
                 defaultAuthorization = Some ''Bearer old'', timers = []\<rparr>"

definition w_valid :: api_state where
  "w_valid = \<lparr>store = store_old, now = 0, console = [], wire = []\<rparr>"

definition w_expired :: api_state where
  "w_expired = \<lparr>store = store_old, now = 999999999, console = [], wire = []\<rparr>"

definition get_wallets :: config where
  "get_wallets = \<lparr>meth = GET, url = ''/wallets'', authorization = None, retry = False\<rparr>"

definition answers :: "nat \<Rightarrow> resp_data option \<Rightarrow> exchange" where
  "answers st d = \<lparr>answer = Some \<lparr>status = st, data = d\<rparr>, elapsed = 10\<rparr>"

definition new_token_body :: "resp_data option" where
  "new_token_body = Some \<lparr>accessToken = Some ''new'', expireAt = None\<rparr>"

definition srv_401_500 :: "nat \<Rightarrow> exchange" where
  "srv_401_500 k = (if k = 0 then answers 401 None else answers 500 None)"

definition srv_401_token_200 :: "nat \<Rightarrow> exchange" where
  "srv_401_token_200 k =
     (if k = 0 then answers 401 None
      else if k = 1 then answers 200 new_token_body
      else answers 200 None)"

definition srv_all_401 :: "nat \<Rightarrow> exchange" where
  "srv_all_401 k = answers 401 None"

definition srv_token :: "nat \<Rightarrow> exchange" where
  "srv_token k = answers 200 new_token_body"

section \<open>Transfer service (\<open>services/transfer.service.ts\<close>)\<close>

text \<open>
  An error thrown by a call, as the service reads it: \<open>error.message\<close>, the status of
  \<open>error.response\<close> when there is a response, and \<open>error.response.data.message\<close> when it
  is a string.  A \<open>TypeError\<close> raised by reading a field of \<open>null\<close> is an error with a
  message and no response.
\<close>

record call_error =
  error_message :: string
  error_status :: "nat option"
  error_body_message :: "string option"

record eligibility =
  isEligible :: bool
  reason :: "string option"

record user_info =
  hasWallets :: bool
  kycStatus :: "string option"

datatype svc_log =
    WarnUsingMockImplementation
  | WarnUserEndpointNotAvailable
  | WarnAllowingTransferByDefault string
  | ErrorCheckingUserStatus
  | ErrorCheckingRecipientEligibility

text \<open>
  The outcomes of the three calls of the service: the dedicated eligibility endpoint, the
  lookup of a user by email, and the transfer itself.  A fulfilled call gives its body,
  \<open>None\<close> when the body is \<open>null\<close>.
\<close>

record transfer_api =
  post_check_recipient :: "string \<Rightarrow> call_error + eligibility option"
  get_user_by_email :: "string \<Rightarrow> call_error + user_info option"
  post_transfers_send :: "string \<Rightarrow> string \<Rightarrow> call_error + unit"

definition type_error :: call_error where
  "type_error = \<lparr>error_message = ''Cannot read properties of null'', error_status = None,
                  error_body_message = None\<rparr>"

text \<open>\<open>error.response?.data?.message || error.message || "Unknown error"\<close>\<close>

definition errorMessage :: "call_error \<Rightarrow> string" where
  "errorMessage e =
     (if truthy_str (error_body_message e) then the (error_body_message e)
      else if error_message e \<noteq> [] then error_message e
      else ''Unknown error'')"

text \<open>
  The \<open>catch (userError)\<close> block of the fallback: what the check returns when the lookup
  of the user throws.
\<close>

definition on_user_error :: "string \<Rightarrow> call_error \<Rightarrow> eligibility option \<times> svc_log list" where
  "on_user_error email userError =
     (if error_status userError = Some 404 \<or> error_status userError = Some 400 then
        if error_status userError = Some 404
           \<and> (case error_body_message userError of
                 None \<Rightarrow> False
               | Some m \<Rightarrow> str_includes m ''Cannot GET'')
        then (Some \<lparr>isEligible = True, reason = None\<rparr>,
              [WarnUserEndpointNotAvailable, WarnAllowingTransferByDefault email])
        else (Some \<lparr>isEligible = False, reason = Some ''Recipient is not registered with Copperx''\<rparr>, [])
      else (Some \<lparr>isEligible = True, reason = None\<rparr>, [ErrorCheckingUserStatus]))"

text \<open>
  \<open>checkRecipientEligibility(email)\<close>, with the lines it logs.  An error of the dedicated
  endpoint that is not a 404 is thrown again and lands in the outer \<open>catch\<close>.
\<close>

definition checkRecipientEligibility ::
    "transfer_api \<Rightarrow> string \<Rightarrow> eligibility option \<times> svc_log list" where
  "checkRecipientEligibility env email =
     (case post_check_recipient env email of
        Inr body \<Rightarrow> (body, [])
      | Inl apiError \<Rightarrow>
          if error_status apiError \<noteq> Some 404 then
            (Some \<lparr>isEligible = False,
                   reason = Some (''Failed to verify recipient: '' @ errorMessage apiError)\<rparr>,
             [ErrorCheckingRecipientEligibility])
          else
            (let (result, lines) =
               (case get_user_by_email env email of
                  Inr None \<Rightarrow> on_user_error email type_error
                | Inr (Some found) \<Rightarrow>
                    if \<not> hasWallets found then
                      (Some \<lparr>isEligible = False,
                             reason = Some ''Recipient does not have any wallets set up''\<rparr>, [])
                    else if kycStatus found \<noteq> Some ''APPROVED'' then
                      (Some \<lparr>isEligible = False,
                             reason = Some ''Recipient has not completed KYC verification''\<rparr>, [])
                    else (Some \<lparr>isEligible = True, reason = None\<rparr>, [])
                | Inl userError \<Rightarrow> on_user_error email userError)
             in (result, WarnUsingMockImplementation # lines)))"

text \<open>
  \<open>sendToEmail(email, amount)\<close>: the check first; a recipient who is not eligible makes
  it throw before any transfer is posted.
\<close>

definition sendToEmail :: "transfer_api \<Rightarrow> string \<Rightarrow> string \<Rightarrow> call_error + unit" where
  "sendToEmail env email amount =
     (case fst (checkRecipientEligibility env email) of
        None \<Rightarrow> Inl type_error
      | Some e \<Rightarrow>
          if \<not> isEligible e then
            Inl \<lparr>error_message =
                   (if truthy_str (reason e) then the (reason e)
                    else ''Recipient is not eligible to receive funds''),
                 error_status = None, error_body_message = None\<rparr>
          else post_transfers_send env email amount)"

subsection \<open>Scenarios of the eligibility check\<close>

text \<open>
  The dedicated endpoint answers 500; the dedicated endpoint is absent and the lookup
  finds a user with wallets and approved KYC.
\<close>

definition http_error :: "nat \<Rightarrow> string option \<Rightarrow> call_error" where
  "http_error st m = \<lparr>error_message = ''Request failed'', error_status = Some st,
                       error_body_message = m\<rparr>"

definition api_check_500 :: transfer_api where
  "api_check_500 =
     \<lparr>post_check_recipient = (\<lambda>email. Inl (http_error 500 (Some ''Internal server error''))),
      get_user_by_email = (\<lambda>email. Inr (Some \<lparr>hasWallets = True, kycStatus = Some ''APPROVED''\<rparr>)),
      post_transfers_send = (\<lambda>email amount. Inr ())\<rparr>"

definition api_check_absent :: transfer_api where
  "api_check_absent =
     \<lparr>post_check_recipient = (\<lambda>email. Inl (http_error 404 (Some ''Cannot POST /api/transfers/check-recipient''))),
      get_user_by_email = (\<lambda>email. Inr (Some \<lparr>hasWallets = True, kycStatus = Some ''APPROVED''\<rparr>)),
      post_transfers_send = (\<lambda>email amount. Inr ())\<rparr>"

section \<open>Notification bridge (\<open>handlers/notification.handler.ts\<close>)\<close>

text \<open>The key \<open>`${chatId}:${organizationId}`\<close>: the chat id printed in decimal.\<close>

fun show_nat :: "nat \<Rightarrow> string" where
  "show_nat n =
     (if n < 10 then [char_of (48 + n)]
      else show_nat (n div 10) @ [char_of (48 + n mod 10)])"

definition show_int :: "int \<Rightarrow> string" where
  "show_int i = (if i < 0 then CHR ''-'' # show_nat (nat (- i)) else show_nat (nat i))"

definition instanceKey :: "int \<Rightarrow> string \<Rightarrow> string" where
  "instanceKey chatId organizationId = show_int chatId @ '':'' @ organizationId"

text \<open>
  A client of the push provider: its identity, the bearer token of its authorizer, the
  channel it subscribed to and the events bound on it.
\<close>

record pusher_client =
  client_id :: nat
  client_token :: string
  channel :: "string option"
  bound_events :: "string list"

text \<open>
  What the provider's library does inside the \<open>try\<close> block of one call: everything
  works, or the constructor throws, or a later step (subscribe, bind) throws after the
  client was constructed.
\<close>

datatype pusher_setup = SetupWorks | ConstructorThrows | SubscribeThrows

datatype bridge_log =
    PusherAlreadyInitialized string
  | InitializingPusher string
  | PusherInitialized string
  | ErrorInitializingPusher string
  | CleaningUpPusher string

text \<open>
  The module's state: \<open>activePusherInstances\<close> (key to client), the clients that were
  constructed and not disconnected, the number of clients constructed so far, the token
  store and the console.
\<close>

record bridge_state =
  activePusherInstances :: "string \<rightharpoonup> nat"
  live_clients :: "pusher_client list"
  constructed :: nat
  bridge_store :: token_store
  bridge_console :: "bridge_log list"

definition bridge_log :: "bridge_log \<Rightarrow> bridge_state \<Rightarrow> bridge_state" where
  "bridge_log l b = b\<lparr>bridge_console := bridge_console b @ [l]\<rparr>"

text \<open>\<open>initializeUserPusher(bot, chatId, token, organizationId)\<close>, called at time \<open>clock\<close>.\<close>

definition initializeUserPusher ::
    "pusher_setup \<Rightarrow> int \<Rightarrow> int \<Rightarrow> string \<Rightarrow> string \<Rightarrow> bridge_state \<Rightarrow> bridge_state" where
  "initializeUserPusher setup clock chatId tok organizationId b =
     (let key = instanceKey chatId organizationId
      in if activePusherInstances b key \<noteq> None
         then bridge_log (PusherAlreadyInitialized key) b
         else
           (let b1 = bridge_log (InitializingPusher key) b;
                b2 = b1\<lparr>bridge_store := setAuthToken tok None clock (bridge_store b1)\<rparr>
            in case setup of
                 ConstructorThrows \<Rightarrow> bridge_log (ErrorInitializingPusher key) b2
               | SubscribeThrows \<Rightarrow>
                   bridge_log (ErrorInitializingPusher key)
                     (b2\<lparr>live_clients := live_clients b2 @
                            [\<lparr>client_id = constructed b2, client_token = tok,
                              channel = None, bound_events = []\<rparr>],
                         constructed := Suc (constructed b2)\<rparr>)
               | SetupWorks \<Rightarrow>
                   bridge_log (PusherInitialized key)
                     (b2\<lparr>live_clients := live_clients b2 @
                            [\<lparr>client_id = constructed b2, client_token = tok,
                              channel = Some (''private-organization.'' @ organizationId),
                              bound_events = [''deposit'', ''withdrawal'']\<rparr>],
                         constructed := Suc (constructed b2),
                         activePusherInstances := (activePusherInstances b2)(key \<mapsto> constructed b2)\<rparr>)))"




section \<open>Sessions and the chat transport (\<open>types/index.ts\<close>)\<close>

record user_session =
  userId :: string
  user_email :: string
  user_token :: string
  organizationId :: string

record auth_state =
  auth_email :: "string option"
  awaitingOTP :: bool
  sid :: "string option"

record transfer_state =
  transfer_type :: "string option"
  recipient :: "string option"
  amount :: "string option"
  network :: "string option"

record history_state =
  page :: int
  limit :: int

record session =
  user :: "user_session option"
  authState :: "auth_state option"
  transferState :: "transfer_state option"
  historyState :: "history_state option"

text \<open>The object \<open>{}\<close>, as a session and as a transfer state.\<close>

definition empty_session :: session where
  "empty_session = \<lparr>user = None, authState = None, transferState = None, historyState = None\<rparr>"

definition empty_transfer :: transfer_state where
  "empty_transfer = \<lparr>transfer_type = None, recipient = None, amount = None, network = None\<rparr>"

text \<open>
  The messages of the handlers modelled here, by what they say; the page of the history
  carries its buttons.
\<close>

record history_view =
  shown_page :: int
  view_buttons :: "string list"
  prev_button :: bool
  next_button :: bool

datatype chat_msg =
    NeedLoginFirst
  | NeedLoginForTransfers
  | InvalidSessionState
  | MissingRecipientOrAmount
  | MissingNetwork
  | TransferInitiated
  | TransferFailedRecipient string
  | FailedToProcessTransfer
  | UnexpectedError
  | TransferCancelled
  | KycNotApproved
  | NoDefaultWallet
  | InsufficientBalance
  | EnterRecipientEmail
  | FailedToVerifyEligibility
  | FetchingHistory
  | NoTransactionsYet
  | HistoryPage history_view
  | FailedToFetchHistory
  | InvalidEmailFormat
  | OtpSent
  | FailedToSendOtp

datatype chat_call = Reply chat_msg | EditMessageText chat_msg | DeleteMessage

text \<open>The calls to the transfer service that a handler issues.\<close>

datatype service_call =
    SendToEmail string string
  | SendToWallet string string string
  | GetTransfers int int

text \<open>
  The context of one update: the session attached to it, the chat calls attempted so far
  (each with whether the transport accepted it), the service calls issued, and the
  process-wide token store.
\<close>

record ctx =
  ctx_session :: "session option"
  outbox :: "(chat_call \<times> bool) list"
  issued :: "service_call list"
  tokens :: token_store

text \<open>
  The surroundings of one update: whether the transport accepts the \<open>k\<close>-th chat call,
  the error it throws when it does not, and the clock.
\<close>

record chat_env =
  chat_ok :: "nat \<Rightarrow> bool"
  chat_failure :: call_error
  env_clock :: int

type_synonym 'a handled = "(call_error + 'a) \<times> ctx"

text \<open>\<open>await ctx.reply(...)\<close>, \<open>await ctx.editMessageText(...)\<close>, \<open>await ctx.telegram.deleteMessage(...)\<close>.\<close>

definition chat :: "chat_env \<Rightarrow> chat_call \<Rightarrow> ctx \<Rightarrow> unit handled" where
  "chat env c x =
     (let ok = chat_ok env (length (outbox x));
          x1 = x\<lparr>outbox := outbox x @ [(c, ok)]\<rparr>
      in if ok then (Inr (), x1) else (Inl (chat_failure env), x1))"

section \<open>Transfer handlers (\<open>handlers/transfer.handler.ts\<close>)\<close>

text \<open>\<open>ctx.session?.user\<close>\<close>

definition session_user :: "ctx \<Rightarrow> user_session option" where
  "session_user x = (case ctx_session x of None \<Rightarrow> None | Some s \<Rightarrow> user s)"

text \<open>\<open>checkAuth(ctx)\<close>\<close>

definition checkAuth :: "chat_env \<Rightarrow> ctx \<Rightarrow> bool handled" where
  "checkAuth env x =
     (case session_user x of
        None \<Rightarrow>
          (case chat env (Reply NeedLoginFirst) x of
             (Inl e, x1) \<Rightarrow> (Inl e, x1)
           | (Inr u, x1) \<Rightarrow> (Inr False, x1))
      | Some u \<Rightarrow>
          (Inr True, x\<lparr>tokens := setAuthToken (user_token u) None (env_clock env) (tokens x)\<rparr>))"

text \<open>
  \<open>ctx.session.transferState = {}\<close>; the handler runs it where the session is present,
  and its outer \<open>catch\<close> tests \<open>if (ctx.session)\<close> first.
\<close>

definition reset_transfer :: "ctx \<Rightarrow> ctx" where
  "reset_transfer x =
     (case ctx_session x of
        None \<Rightarrow> x
      | Some s \<Rightarrow> x\<lparr>ctx_session := Some (s\<lparr>transferState := Some empty_transfer\<rparr>)\<rparr>)"

record transfer_service =
  svc_sendToEmail :: "string \<Rightarrow> string \<Rightarrow> call_error + unit"
  svc_sendToWallet :: "string \<Rightarrow> string \<Rightarrow> string \<Rightarrow> call_error + unit"

text \<open>
  \<open>handleTransferConfirm(ctx)\<close>, from the inside out: the outer \<open>catch\<close>, the inner
  \<open>catch\<close>, the end of the inner \<open>try\<close> block after the transfer call, and the handler.
\<close>

definition confirm_outer_catch :: "chat_env \<Rightarrow> ctx \<Rightarrow> unit handled" where
  "confirm_outer_catch env x =
     (case chat env (Reply UnexpectedError) x of
        (Inl e, x1) \<Rightarrow> (Inl e, x1)
      | (Inr u, x1) \<Rightarrow> (Inr (), reset_transfer x1))"

definition confirm_inner_catch :: "chat_env \<Rightarrow> call_error \<Rightarrow> ctx \<Rightarrow> unit handled" where
  "confirm_inner_catch env err x =
     (case chat env
             (EditMessageText
               (if error_message err \<noteq> []
                   \<and> (str_includes (error_message err) ''not eligible''
                        \<or> str_includes (error_message err) ''Failed to verify recipient'')
                then TransferFailedRecipient (error_message err)
                else FailedToProcessTransfer)) x of
        (Inl e, x1) \<Rightarrow> confirm_outer_catch env x1
      | (Inr u, x1) \<Rightarrow> (Inr (), reset_transfer x1))"

definition confirm_finish :: "chat_env \<Rightarrow> ctx \<Rightarrow> unit handled" where
  "confirm_finish env x =
     (case chat env (EditMessageText TransferInitiated) x of
        (Inl e, x1) \<Rightarrow> confirm_inner_catch env e x1
      | (Inr u, x1) \<Rightarrow> (Inr (), reset_transfer x1))"

definition handleTransferConfirm :: "chat_env \<Rightarrow> transfer_service \<Rightarrow> ctx \<Rightarrow> unit handled" where
  "handleTransferConfirm env svc x =
     (case checkAuth env x of
        (Inl e, x1) \<Rightarrow> (Inl e, x1)
      | (Inr False, x1) \<Rightarrow> (Inr (), x1)
      | (Inr True, x1) \<Rightarrow>
          (case ctx_session x1 of
             None \<Rightarrow> (Inl type_error, x1)
           | Some s \<Rightarrow>
               (case transferState s of
                  None \<Rightarrow> chat env (Reply InvalidSessionState) x1
                | Some ts \<Rightarrow>
                    if \<not> truthy_str (recipient ts) \<or> \<not> truthy_str (amount ts) then
                      (case chat env (Reply MissingRecipientOrAmount) x1 of
                         (Inl e, x2) \<Rightarrow> confirm_outer_catch env x2
                       | (Inr u, x2) \<Rightarrow> (Inr (), x2))
                    else if transfer_type ts = Some ''EMAIL'' then
                      (let x2 = x1\<lparr>issued := issued x1 @
                                   [SendToEmail (the (recipient ts)) (the (amount ts))]\<rparr>
                       in case svc_sendToEmail svc (the (recipient ts)) (the (amount ts)) of
                            Inl e \<Rightarrow> confirm_inner_catch env e x2
                          | Inr u \<Rightarrow> confirm_finish env x2)
                    else if transfer_type ts = Some ''WALLET'' then
                      (if \<not> truthy_str (network ts) then
                         (case chat env (Reply MissingNetwork) x1 of
                            (Inl e, x2) \<Rightarrow> confirm_inner_catch env e x2
                          | (Inr u, x2) \<Rightarrow> (Inr (), x2))
                       else
                         (let x2 = x1\<lparr>issued := issued x1 @
                                      [SendToWallet (the (recipient ts)) (the (amount ts))
                                         (the (network ts))]\<rparr>
                          in case svc_sendToWallet svc (the (recipient ts)) (the (amount ts))
                                    (the (network ts)) of
                               Inl e \<Rightarrow> confirm_inner_catch env e x2
                             | Inr u \<Rightarrow> confirm_finish env x2))
                    else confirm_finish env x1)))"

text \<open>\<open>handleTransferCancel(ctx)\<close>\<close>

definition handleTransferCancel :: "chat_env \<Rightarrow> ctx \<Rightarrow> unit handled" where
  "handleTransferCancel env x = chat env (EditMessageText TransferCancelled) (reset_transfer x)"

section \<open>The send flow's gate (\<open>services/auth.service.ts\<close>, \<open>services/wallet.service.ts\<close>)\<close>

text \<open>
  The bodies of the three calls behind the gate, as far as the gate reads them, and the
  runtime's \<open>parseFloat\<close>, whose result is a number or \<open>NaN\<close>.
\<close>

datatype js_number = NaN | Num real

record kyc =
  kyc_status :: "string option"

record default_wallet =
  walletAddress :: "string option"

record wallet_balance =
  balance :: "string option"

record wallet_api =
  get_kycs :: "call_error + kyc list option"
  get_wallets_default :: "call_error + default_wallet option"
  get_wallets_balance :: "call_error + wallet_balance option"
  parseFloat :: "string \<Rightarrow> js_number"

text \<open>\<open>x <= 0\<close> on numbers: every comparison with \<open>NaN\<close> is false.\<close>

definition le_zero :: "js_number \<Rightarrow> bool" where
  "le_zero v = (case v of NaN \<Rightarrow> False | Num r \<Rightarrow> r \<le> 0)"

text \<open>\<open>toLowerCase()\<close> on the letters \<open>A\<close> to \<open>Z\<close>.\<close>

definition toLowerCase :: "string \<Rightarrow> string" where
  "toLowerCase s =
     map (\<lambda>c. if 65 \<le> (of_char c :: nat) \<and> (of_char c :: nat) \<le> 90
              then char_of ((of_char c :: nat) + 32) else c) s"

text \<open>
  \<open>isKycApproved()\<close>: the first record of the list decides; a failed call, an empty or
  missing list, and a record without status (a \<open>TypeError\<close>, caught) give \<open>false\<close>.
\<close>

definition isKycApproved :: "wallet_api \<Rightarrow> bool" where
  "isKycApproved wapi =
     (case get_kycs wapi of
        Inl e \<Rightarrow> False
      | Inr None \<Rightarrow> False
      | Inr (Some []) \<Rightarrow> False
      | Inr (Some (latestKyc # others)) \<Rightarrow>
          (case kyc_status latestKyc of
             None \<Rightarrow> False
           | Some st \<Rightarrow> toLowerCase st = ''approved''))"

text \<open>\<open>getDefaultWallet()\<close> and \<open>getWalletBalance()\<close> return \<open>{data: null}\<close> when the call fails.\<close>

definition getDefaultWallet :: "wallet_api \<Rightarrow> default_wallet option" where
  "getDefaultWallet wapi = (case get_wallets_default wapi of Inl e \<Rightarrow> None | Inr d \<Rightarrow> d)"

definition getWalletBalance :: "wallet_api \<Rightarrow> wallet_balance option" where
  "getWalletBalance wapi = (case get_wallets_balance wapi of Inl e \<Rightarrow> None | Inr d \<Rightarrow> d)"

text \<open>
  The two tests on the wallet, as the handlers pass them:
  \<open>walletResponse.data && walletResponse.data.walletAddress\<close>, and
  \<open>balanceResponse.data && balanceResponse.data.balance && !(parseFloat(balance) <= 0)\<close>.
\<close>

definition has_default_wallet :: "wallet_api \<Rightarrow> bool" where
  "has_default_wallet wapi =
     (case getDefaultWallet wapi of None \<Rightarrow> False | Some d \<Rightarrow> truthy_str (walletAddress d))"

definition has_balance :: "wallet_api \<Rightarrow> bool" where
  "has_balance wapi =
     (case getWalletBalance wapi of
        None \<Rightarrow> False
      | Some b \<Rightarrow> truthy_str (balance b) \<and> \<not> le_zero (parseFloat wapi (the (balance b))))"

text \<open>The \<open>catch\<close> block shared by the gate's checks: one more message.\<close>

definition eligibility_guarded :: "chat_env \<Rightarrow> unit handled \<Rightarrow> unit handled" where
  "eligibility_guarded env r =
     (case r of
        (Inl e, x1) \<Rightarrow> chat env (Reply FailedToVerifyEligibility) x1
      | (Inr u, x1) \<Rightarrow> (Inr (), x1))"

text \<open>\<open>ctx.session.transferState = {type: "EMAIL", recipient: undefined, amount: undefined}\<close>\<close>

definition start_email_transfer :: "ctx \<Rightarrow> ctx" where
  "start_email_transfer x =
     x\<lparr>ctx_session :=
         Some ((case ctx_session x of None \<Rightarrow> empty_session | Some s \<Rightarrow> s)
                 \<lparr>transferState := Some (empty_transfer\<lparr>transfer_type := Some ''EMAIL''\<rparr>)\<rparr>)\<rparr>"

text \<open>\<open>sendHandler(ctx)\<close>\<close>

definition sendHandler :: "chat_env \<Rightarrow> wallet_api \<Rightarrow> ctx \<Rightarrow> unit handled" where
  "sendHandler env wapi x =
     (case checkAuth env x of
        (Inl e, x1) \<Rightarrow> (Inl e, x1)
      | (Inr False, x1) \<Rightarrow> (Inr (), x1)
      | (Inr True, x1) \<Rightarrow>
          eligibility_guarded env
            (if \<not> isKycApproved wapi then chat env (Reply KycNotApproved) x1
             else if \<not> has_default_wallet wapi then chat env (Reply NoDefaultWallet) x1
             else if \<not> has_balance wapi then chat env (Reply InsufficientBalance) x1
             else chat env (Reply EnterRecipientEmail) (start_email_transfer x1)))"

text \<open>
  \<open>canPerformTransfers(ctx)\<close>, the same checks as a function of its own (it answers a
  missing login with its own wording).
\<close>

definition canPerformTransfers :: "chat_env \<Rightarrow> wallet_api \<Rightarrow> ctx \<Rightarrow> bool handled" where
  "canPerformTransfers env wapi x =
     (case session_user x of
        None \<Rightarrow>
          (case chat env (Reply NeedLoginForTransfers) x of
             (Inl e, x1) \<Rightarrow> (Inl e, x1)
           | (Inr u, x1) \<Rightarrow> (Inr False, x1))
      | Some u \<Rightarrow>
          (let x1 = x\<lparr>tokens := setAuthToken (user_token u) None (env_clock env) (tokens x)\<rparr>
           in if isKycApproved wapi \<and> has_default_wallet wapi \<and> has_balance wapi
              then (Inr True, x1)
              else
                (case chat env
                        (Reply (if \<not> isKycApproved wapi then KycNotApproved
                                else if \<not> has_default_wallet wapi then NoDefaultWallet
                                else InsufficientBalance)) x1 of
                   (Inr v, x2) \<Rightarrow> (Inr False, x2)
                 | (Inl e, x2) \<Rightarrow>
                     (case chat env (Reply FailedToVerifyEligibility) x2 of
                        (Inl e2, x3) \<Rightarrow> (Inl e2, x3)
                      | (Inr v, x3) \<Rightarrow> (Inr False, x3)))))"

section \<open>Transaction history\<close>

text \<open>
  The body of the transfer list, as far as the handler reads it for its buttons: the
  identifiers of the items (\<open>data\<close>) and the pagination record.
\<close>

record pagination =
  totalPages :: int
  totalItems :: int

record transfer_item =
  item_id :: "string option"

record transfers_body =
  items :: "transfer_item list option"
  page_info :: "pagination option"

record history_api =
  get_transfers :: "int \<Rightarrow> int \<Rightarrow> call_error + transfers_body option"

definition first_page :: history_state where
  "first_page = \<lparr>page = 1, limit = 5\<rparr>"

text \<open>
  The buttons under a page of the history: one per item with an identifier,
  \<open>Previous\<close> when \<open>page > 1\<close>, \<open>Next\<close> when \<open>pagination && page < pagination.totalPages\<close>,
  and \<open>Refresh\<close> always.
\<close>

definition history_buttons :: "history_state \<Rightarrow> transfers_body \<Rightarrow> history_view" where
  "history_buttons hs body =
     \<lparr>shown_page = page hs,
      view_buttons = map (\<lambda>t. the (item_id t))
                       (filter (\<lambda>t. truthy_str (item_id t)) (case items body of None \<Rightarrow> [] | Some ts \<Rightarrow> ts)),
      prev_button = (page hs > 1),
      next_button = (case page_info body of None \<Rightarrow> False | Some pg \<Rightarrow> page hs < totalPages pg)\<rparr>"

text \<open>The \<open>catch\<close> block of \<open>fetchAndDisplayHistory\<close>.\<close>

definition history_guarded :: "chat_env \<Rightarrow> unit handled \<Rightarrow> unit handled" where
  "history_guarded env r =
     (case r of
        (Inl e, x1) \<Rightarrow> chat env (Reply FailedToFetchHistory) x1
      | (Inr u, x1) \<Rightarrow> (Inr (), x1))"

text \<open>
  \<open>fetchAndDisplayHistory(ctx)\<close>: the loading message, the list for the session's page,
  the removal of the loading message, and the page or the note that there is nothing.
\<close>

definition fetchAndDisplayHistory :: "chat_env \<Rightarrow> history_api \<Rightarrow> ctx \<Rightarrow> unit handled" where
  "fetchAndDisplayHistory env hapi x =
     (case ctx_session x of
        None \<Rightarrow> (Inl type_error, x)
      | Some s \<Rightarrow>
          (let hs = (case historyState s of None \<Rightarrow> first_page | Some h \<Rightarrow> h);
               x0 = x\<lparr>ctx_session := Some (s\<lparr>historyState := Some hs\<rparr>)\<rparr>
           in case chat env (Reply FetchingHistory) x0 of
                (Inl e, x1) \<Rightarrow> chat env (Reply FailedToFetchHistory) x1
              | (Inr u, x1) \<Rightarrow>
                  (let x2 = x1\<lparr>issued := issued x1 @ [GetTransfers (page hs) (limit hs)]\<rparr>
                   in case get_transfers hapi (page hs) (limit hs) of
                        Inl e \<Rightarrow> chat env (Reply FailedToFetchHistory) x2
                      | Inr None \<Rightarrow> chat env (Reply FailedToFetchHistory) x2
                      | Inr (Some body) \<Rightarrow>
                          (case chat env DeleteMessage x2 of
                             (Inl e, x3) \<Rightarrow> chat env (Reply FailedToFetchHistory) x3
                           | (Inr u, x3) \<Rightarrow>
                               history_guarded env
                                 (if items body = None \<or> items body = Some []
                                  then chat env (Reply NoTransactionsYet) x3
                                  else chat env (Reply (HistoryPage (history_buttons hs body))) x3)))))"

text \<open>\<open>handleHistoryPagination(ctx, action)\<close>\<close>

definition turn_page :: "string \<Rightarrow> history_state \<Rightarrow> history_state" where
  "turn_page action hs =
     (if action = ''prev'' \<and> page hs > 1 then hs\<lparr>page := page hs - 1\<rparr>
      else if action = ''next'' then hs\<lparr>page := page hs + 1\<rparr>
      else hs)"

definition handleHistoryPagination ::
    "chat_env \<Rightarrow> history_api \<Rightarrow> string \<Rightarrow> ctx \<Rightarrow> unit handled" where
  "handleHistoryPagination env hapi action x =
     (case checkAuth env x of
        (Inl e, x1) \<Rightarrow> (Inl e, x1)
      | (Inr False, x1) \<Rightarrow> (Inr (), x1)
      | (Inr True, x1) \<Rightarrow>
          (case ctx_session x1 of
             None \<Rightarrow> (Inl type_error, x1)
           | Some s \<Rightarrow>
               (let hs = (case historyState s of None \<Rightarrow> first_page | Some h \<Rightarrow> h)
                in fetchAndDisplayHistory env hapi
                     (x1\<lparr>ctx_session := Some (s\<lparr>historyState := Some (turn_page action hs)\<rparr>)\<rparr>))))"

section \<open>Login: the reply to the email prompt (\<open>handlers/auth.handler.ts\<close>, \<open>index.ts\<close>)\<close>

text \<open>
  The regular expressions of the handlers are sequences of literal characters and of
  character classes repeated one or more times, anchored at both ends.  \<open>rx_match\<close>
  tries every way to split the text, as the backtracking matcher does.
\<close>

datatype rx_item = Lit char | Plus "char \<Rightarrow> bool"

fun rx_match :: "rx_item list \<Rightarrow> string \<Rightarrow> bool" where
  "rx_match [] s = (s = [])"
| "rx_match (Lit c # ps) [] = False"
| "rx_match (Lit c # ps) (d # ds) = (d = c \<and> rx_match ps ds)"
| "rx_match (Plus P # ps) [] = False"
| "rx_match (Plus P # ps) (d # ds) = (P d \<and> (rx_match ps ds \<or> rx_match (Plus P # ps) ds))"

text \<open>
  The class \<open>\s\<close> on characters up to 255: tab, line feed, vertical tab, form feed,
  carriage return, space and the no-break space.
\<close>

definition js_space :: "char \<Rightarrow> bool" where
  "js_space c = ((of_char c :: nat) \<in> {9, 10, 11, 12, 13, 32, 160})"

text \<open>\<open>/^[^\s@]+@[^\s@]+\.[^\s@]+$/.test(email)\<close>\<close>

definition not_space_or_at :: "char \<Rightarrow> bool" where
  "not_space_or_at c = (\<not> js_space c \<and> c \<noteq> CHR ''@'')"

definition emailRegex_test :: "string \<Rightarrow> bool" where
  "emailRegex_test email =
     rx_match [Plus not_space_or_at, Lit CHR ''@'', Plus not_space_or_at, Lit CHR ''.'',
               Plus not_space_or_at] email"

text \<open>
  \<open>requestEmailOTP(email)\<close> returns the body of the response, which should carry the
  \<open>sid\<close>, and throws when the call fails.
\<close>

record otp_body =
  otp_sid :: "string option"

record otp_api =
  requestEmailOTP :: "string \<Rightarrow> call_error + otp_body option"

definition initial_auth_state :: auth_state where
  "initial_auth_state = \<lparr>auth_email = None, awaitingOTP = False, sid = None\<rparr>"

text \<open>\<open>ctx.session.authState = ...\<close> on a session that is present.\<close>

definition set_authState :: "auth_state \<Rightarrow> ctx \<Rightarrow> ctx" where
  "set_authState a x =
     x\<lparr>ctx_session := Some ((case ctx_session x of None \<Rightarrow> empty_session | Some s \<Rightarrow> s)
                               \<lparr>authState := Some a\<rparr>)\<rparr>"

text \<open>
  \<open>handleEmailInput(ctx, email)\<close> of the login flow.  When the body of the response is
  \<open>null\<close>, reading \<open>response.sid\<close> throws after the email and the flag were stored.
\<close>

definition login_handleEmailInput :: "chat_env \<Rightarrow> otp_api \<Rightarrow> string \<Rightarrow> ctx \<Rightarrow> unit handled" where
  "login_handleEmailInput env oapi email x =
     (let s0 = (case ctx_session x of None \<Rightarrow> empty_session | Some s \<Rightarrow> s);
          a0 = (case authState s0 of None \<Rightarrow> initial_auth_state | Some a \<Rightarrow> a);
          x0 = set_authState a0 x
      in if \<not> emailRegex_test email then chat env (Reply InvalidEmailFormat) x0
         else
           (case requestEmailOTP oapi email of
              Inl e \<Rightarrow> chat env (Reply FailedToSendOtp) x0
            | Inr None \<Rightarrow>
                chat env (Reply FailedToSendOtp)
                  (set_authState (a0\<lparr>auth_email := Some email, awaitingOTP := True\<rparr>) x0)
            | Inr (Some body) \<Rightarrow>
                (case chat env (Reply OtpSent)
                        (set_authState \<lparr>auth_email = Some email, awaitingOTP = True,
                                         sid = otp_sid body\<rparr> x0) of
                   (Inl e, x2) \<Rightarrow> chat env (Reply FailedToSendOtp) x2
                 | (Inr u, x2) \<Rightarrow> (Inr (), x2))))"

text \<open>
  The first test of the text router: the message replies to a text containing \<open>enter
  your email address\<close> while the session's \<open>authState.awaitingOTP\<close> is \<open>false\<close>.  Then, and
  only then, the text goes to the login's email handler; \<open>None\<close> stands for the later
  branches of the router.
\<close>

definition awaiting_login_email :: "string \<Rightarrow> ctx \<Rightarrow> bool" where
  "awaiting_login_email replyText x =
     (replyText \<noteq> []
      \<and> (case ctx_session x of
            None \<Rightarrow> False
          | Some s \<Rightarrow> (case authState s of None \<Rightarrow> False | Some a \<Rightarrow> awaitingOTP a = False))
      \<and> str_includes replyText ''enter your email address'')"

definition on_text_login_email ::
    "chat_env \<Rightarrow> otp_api \<Rightarrow> string \<Rightarrow> string \<Rightarrow> ctx \<Rightarrow> unit handled option" where
  "on_text_login_email env oapi replyText text x =
     (if awaiting_login_email replyText x then Some (login_handleEmailInput env oapi text x)
      else None)"

subsection \<open>Scenarios of the handlers\<close>

text \<open>
  A transport that accepts every call; a logged-in user; a service whose calls succeed
  and one whose calls are refused.
\<close>

definition env_ok :: chat_env where
  "env_ok = \<lparr>chat_ok = (\<lambda>k. True),
             chat_failure = \<lparr>error_message = ''Bad Request'', error_status = Some 400,
                              error_body_message = None\<rparr>,
             env_clock = 1000\<rparr>"

text \<open>A transport that refuses the first call of an update and accepts the later ones.\<close>

definition env_first_refused :: chat_env where
  "env_first_refused = env_ok\<lparr>chat_ok := (\<lambda>k. k \<noteq> 0)\<rparr>"

definition alice :: user_session where
  "alice = \<lparr>userId = ''u1'', user_email = ''alice@example.com'', user_token = ''tok'',
            organizationId = ''org1''\<rparr>"

definition no_tokens :: token_store where
  "no_tokens = \<lparr>authToken = None, tokenExpiry = None, defaultAuthorization = None, timers = []\<rparr>"

definition ctx_of :: "session \<Rightarrow> ctx" where
  "ctx_of s = \<lparr>ctx_session = Some s, outbox = [], issued = [], tokens = no_tokens\<rparr>"

definition svc_ok :: transfer_service where
  "svc_ok = \<lparr>svc_sendToEmail = (\<lambda>r a. Inr ()), svc_sendToWallet = (\<lambda>r a n. Inr ())\<rparr>"

definition svc_refused :: transfer_service where
  "svc_refused = \<lparr>svc_sendToEmail = (\<lambda>r a. Inl (http_error 500 None)),
                  svc_sendToWallet = (\<lambda>r a n. Inl (http_error 500 None))\<rparr>"

definition session_missing_amount :: session where
  "session_missing_amount =
     \<lparr>user = Some alice, authState = None,
      transferState = Some \<lparr>transfer_type = Some ''EMAIL'', recipient = Some ''friend@example.com'',
                            amount = None, network = None\<rparr>,
      historyState = None\<rparr>"

definition session_ready_email :: session where
  "session_ready_email =
     \<lparr>user = Some alice, authState = None,
      transferState = Some \<lparr>transfer_type = Some ''EMAIL'', recipient = Some ''friend@example.com'',
                            amount = Some ''100.50'', network = None\<rparr>,
      historyState = None\<rparr>"

definition session_logged_in :: session where
  "session_logged_in = \<lparr>user = Some alice, authState = None, transferState = None, historyState = None\<rparr>"

text \<open>
  A funded, approved account; the same account with KYC pending; the same account whose
  balance text is not a number.
\<close>

definition parse_sample :: "string \<Rightarrow> js_number" where
  "parse_sample s = (if s = ''12.5'' then Num 12.5 else if s = ''0'' then Num 0 else NaN)"

definition wapi_funded :: wallet_api where
  "wapi_funded =
     \<lparr>get_kycs = Inr (Some [\<lparr>kyc_status = Some ''Approved''\<rparr>]),
      get_wallets_default = Inr (Some \<lparr>walletAddress = Some ''0xabc''\<rparr>),
      get_wallets_balance = Inr (Some \<lparr>balance = Some ''12.5''\<rparr>),
      parseFloat = parse_sample\<rparr>"

definition wapi_kyc_pending :: wallet_api where
  "wapi_kyc_pending = wapi_funded\<lparr>get_kycs := Inr (Some [\<lparr>kyc_status = Some ''pending''\<rparr>])\<rparr>"

definition wapi_balance_not_a_number :: wallet_api where
  "wapi_balance_not_a_number =
     wapi_funded\<lparr>get_wallets_balance := Inr (Some \<lparr>balance = Some ''n/a''\<rparr>)\<rparr>"

text \<open>
  A history of two pages, of which the server reports \<open>totalPages = 2\<close> on every
  request, and a session that looks at the second page.
\<close>

definition hapi_two_pages :: history_api where
  "hapi_two_pages =
     \<lparr>get_transfers = (\<lambda>p l. Inr (Some \<lparr>items = Some (if p \<le> 2 then [\<lparr>item_id = Some ''t1''\<rparr>] else []),
                                          page_info = Some \<lparr>totalPages = 2, totalItems = 6\<rparr>\<rparr>))\<rparr>"

definition session_on_page :: "int \<Rightarrow> session" where
  "session_on_page n =
     \<lparr>user = Some alice, authState = None, transferState = None,
      historyState = Some \<lparr>page = n, limit = 5\<rparr>\<rparr>"

text \<open>
  A session right after \<open>/login\<close>, the prompt it was sent, an OTP endpoint that answers
  with a session id, and one that fails.
\<close>

definition session_after_login_command :: session where
  "session_after_login_command =
     \<lparr>user = None, authState = Some \<lparr>auth_email = None, awaitingOTP = False, sid = None\<rparr>,
      transferState = None, historyState = None\<rparr>"

definition login_prompt :: string where
  "login_prompt = ''Please enter your email address to login to your Copperx account:''"

definition oapi_ok :: otp_api where
  "oapi_ok = \<lparr>requestEmailOTP = (\<lambda>email. Inr (Some \<lparr>otp_sid = Some ''sid-1''\<rparr>))\<rparr>"

definition oapi_down :: otp_api where
  "oapi_down = \<lparr>requestEmailOTP = (\<lambda>email. Inl (http_error 500 None))\<rparr>"

text \<open>
  The \<open>catch\<close> blocks of the two interceptors start by logging \<open>Failed to refresh
  token\<close>.  A call keeps them silent when it adds no such line to a console that has none.
\<close>

definition keeps_catch_silent :: "api_fun \<Rightarrow> bool" where
  "keeps_catch_silent api = (\<forall>cfg w r w'. api cfg w = Some (r, w') \<longrightarrow>
      FailedToRefreshToken \<notin> set (console w) \<longrightarrow> FailedToRefreshToken \<notin> set (console w'))"

chapter \<open>Properties\<close>

section \<open>Token store: expiry policy\<close>

lemma setAuthToken_expiry:
  "tokenExpiry (setAuthToken t ttl clock st) =
     Some (clock + (if truthy_num ttl then the ttl else day_seconds) * 1000)"
  by (simp add: setAuthToken_def Let_def)

lemma setAuthToken_token:
  "authToken (setAuthToken t ttl clock st) = Some t \<and>
   defaultAuthorization (setAuthToken t ttl clock st) = Some (''Bearer '' @ t)"
  by (simp add: setAuthToken_def Let_def bearer_def)

lemma isTokenExpired_iff:
  "tokenExpiry st = Some e \<Longrightarrow> e \<noteq> 0 \<Longrightarrow> isTokenExpired clock st \<longleftrightarrow> clock > e - 5 * 60 * 1000"
  by (simp add: isTokenExpired_def truthy_num_def bufferTime_def)

text \<open>
  C8, evaluated at a time to live of zero seconds.  \<open>setAuthToken(token, 0)\<close> called at
  time \<open>1000\<close> stores the expiry \<open>1000 + 86400000\<close>, the default of 24 hours, and not
  \<open>1000 + 0\<close>: the test \<open>if (expiresIn)\<close> takes a given \<open>0\<close> for a missing argument.
  The token is then not reported as expired at that same instant.
\<close>

theorem setAuthToken_zero_ttl:
  "tokenExpiry (setAuthToken ''tok'' (Some 0) 1000
      \<lparr>authToken = None, tokenExpiry = None, defaultAuthorization = None, timers = []\<rparr>)
     = Some 86401000
   \<and> \<not> isTokenExpired 1000 (setAuthToken ''tok'' (Some 0) 1000
      \<lparr>authToken = None, tokenExpiry = None, defaultAuthorization = None, timers = []\<rparr>)"
  by (simp add: setAuthToken_def isTokenExpired_def truthy_num_def Let_def day_seconds_def
      bufferTime_def bearer_def)

section \<open>Token refresh never rejects\<close>


lemma refreshToken_never_rejects: "refreshToken api w \<noteq> Some (Inl e, w')"
  by (auto simp: refreshToken_def split: option.splits sum.splits prod.splits js_date.splits)

lemma refreshToken_settles: "api refresh_config w \<noteq> None \<Longrightarrow> refreshToken api w \<noteq> None"
  by (auto simp: refreshToken_def split: option.splits sum.splits prod.splits js_date.splits)

lemma refreshToken_console:
  assumes "refreshToken api w = Some (r, w')"
  shows "\<exists>out w1. api refresh_config w = Some (out, w1) \<and>
           (console w' = console w1 \<or> console w' = console w1 @ [ErrorRefreshingToken]) \<and> store w' = store w1"
  using assms
  by (auto simp: refreshToken_def log_def split: option.splits sum.splits prod.splits if_splits)


lemma refreshToken_silent:
  assumes "keeps_catch_silent api" "refreshToken api w = Some (r, w')" "FailedToRefreshToken \<notin> set (console w)"
  shows "FailedToRefreshToken \<notin> set (console w')"
proof -
  from refreshToken_console[OF assms(2)] obtain out w1 where
    a: "api refresh_config w = Some (out, w1)" and
    c: "console w' = console w1 \<or> console w' = console w1 @ [ErrorRefreshingToken]" by blast
  from assms(1) a assms(3) have "FailedToRefreshToken \<notin> set (console w1)"
    unfolding keeps_catch_silent_def by blast
  with c show ?thesis by auto
qed

lemma request_interceptor_silent:
  assumes "keeps_catch_silent api" "request_interceptor api cfg w = Some (cfg', w')"
    "FailedToRefreshToken \<notin> set (console w)"
  shows "FailedToRefreshToken \<notin> set (console w')"
proof (cases "truthy_str (authToken (store w)) \<and> isTokenExpired (now w) (store w)")
  case False
  with assms show ?thesis by (auto simp: request_interceptor_def split: if_splits)
next
  case True
  have l: "FailedToRefreshToken \<notin> set (console (log TokenExpiredRefreshing w))"
    using assms(3) by (simp add: log_def)
  show ?thesis
  proof (cases "refreshToken api (log TokenExpiredRefreshing w)")
    case None
    with True assms(2) show ?thesis by (simp add: request_interceptor_def)
  next
    case (Some p)
    obtain r w1 where p: "p = (r, w1)" by (cases p)
    have s: "FailedToRefreshToken \<notin> set (console w1)"
      using refreshToken_silent[OF assms(1) _ l] Some p by simp
    from Some p refreshToken_never_rejects obtain v where r: "r = Inr v" by (cases r) auto
    show ?thesis using True assms(2) Some p r s
      by (cases v) (auto simp: request_interceptor_def log_def store_refreshed_def Let_def)
  qed
qed

lemma dispatchRequest_console: "dispatchRequest srv cfg w = (r, w') \<Longrightarrow> console w' = console w"
  by (auto simp: dispatchRequest_def Let_def split: option.splits if_splits)

lemma response_interceptor_silent:
  assumes "keeps_catch_silent api" "response_interceptor api err w = Some (r, w')"
    "FailedToRefreshToken \<notin> set (console w)"
  shows "FailedToRefreshToken \<notin> set (console w')"
proof (cases "(case err_response err of None \<Rightarrow> False | Some r \<Rightarrow> status r = 401) \<and> \<not> retry (err_config err)")
  case False
  with assms show ?thesis by (auto simp: response_interceptor_def Let_def split: if_splits)
next
  case True
  have l: "FailedToRefreshToken \<notin> set (console (log UnauthorizedRefreshing w))"
    using assms(3) by (simp add: log_def)
  show ?thesis
  proof (cases "refreshToken api (log UnauthorizedRefreshing w)")
    case None
    with True assms(2) show ?thesis by (simp add: response_interceptor_def Let_def)
  next
    case (Some p)
    obtain v0 w1 where p: "p = (v0, w1)" by (cases p)
    have s: "FailedToRefreshToken \<notin> set (console w1)"
      using refreshToken_silent[OF assms(1) _ l] Some p by simp
    from Some p refreshToken_never_rejects obtain v where r: "v0 = Inr v" by (cases v0) auto
    show ?thesis
    proof (cases v)
      case None
      with True assms(2) Some p r s show ?thesis by (simp add: response_interceptor_def Let_def)
    next
      case (Some nt)
      have "FailedToRefreshToken \<notin> set (console (store_refreshed nt w1))"
        using s by (simp add: store_refreshed_def)
      moreover have "api (with_bearer ((err_config err)\<lparr>retry := True\<rparr>) (store_refreshed nt w1)) (store_refreshed nt w1) = Some (r, w')"
        using True assms(2) \<open>refreshToken api (log UnauthorizedRefreshing w) = Some p\<close> p r Some
        by (simp add: response_interceptor_def Let_def)
      ultimately show ?thesis using assms(1) unfolding keeps_catch_silent_def by blast
    qed
  qed
qed

lemma api_request_silent:
  assumes "keeps_catch_silent api"
  shows "keeps_catch_silent (api_request srv api)"
  unfolding keeps_catch_silent_def
proof (intro allI impI)
  fix cfg w r w'
  assume a: "api_request srv api cfg w = Some (r, w')" and n: "FailedToRefreshToken \<notin> set (console w)"
  from a obtain cfg1 w1 where ri: "request_interceptor api (mergeConfig cfg w) w = Some (cfg1, w1)"
    by (auto simp: api_request_def split: option.splits)
  have n1: "FailedToRefreshToken \<notin> set (console w1)"
    using request_interceptor_silent[OF assms ri n] .
  obtain out w2 where d: "dispatchRequest srv cfg1 w1 = (out, w2)" by (cases "dispatchRequest srv cfg1 w1")
  have n2: "FailedToRefreshToken \<notin> set (console w2)" using dispatchRequest_console[OF d] n1 by simp
  show "FailedToRefreshToken \<notin> set (console w')"
  proof (cases out)
    case (Inr resp)
    with a ri d n2 show ?thesis by (simp add: api_request_def)
  next
    case (Inl err)
    with a ri d have "response_interceptor api err w2 = Some (r, w')" by (simp add: api_request_def)
    from response_interceptor_silent[OF assms this n2] show ?thesis .
  qed
qed

lemma api_call_silent: "keeps_catch_silent (api_call srv fuel)"
proof (induction fuel)
  case 0
  show ?case by (simp add: keeps_catch_silent_def)
next
  case (Suc n)
  then show ?case by (simp add: api_request_silent)
qed




lemma refreshToken_value:
  "refreshToken api w = Some (Inr (Some nt), w') \<longleftrightarrow>
     (\<exists>r d. api refresh_config w = Some (Inr r, w') \<and> data r = Some d \<and> truthy_str (accessToken d)
        \<and> nt = \<lparr>token = the (accessToken d), expiresIn = seconds_until (expireAt d) (now w')\<rparr>)"
  by (auto simp: refreshToken_def log_def split: option.splits sum.splits prod.splits if_splits)

text \<open>
  Whatever the instance \<open>api\<close> does with the refresh request, once that call settles
  \<open>refreshToken\<close> returns: it never rejects; it returns a \<open>{token, expiresIn}\<close> record
  exactly when the call was fulfilled with a body whose \<open>accessToken\<close> is truthy, and
  \<open>null\<close> otherwise.  Consequently no call through the instance ever runs a \<open>catch\<close>
  block of an interceptor: the line those blocks log first never appears.
\<close>

theorem refreshToken_total:
  "(api refresh_config w \<noteq> None \<longrightarrow> (\<exists>v w'. refreshToken api w = Some (Inr v, w')))
   \<and> (\<forall>e w'. refreshToken api w \<noteq> Some (Inl e, w'))
   \<and> (\<forall>nt w'. refreshToken api w = Some (Inr (Some nt), w') \<longleftrightarrow>
         (\<exists>r d. api refresh_config w = Some (Inr r, w') \<and> data r = Some d
            \<and> truthy_str (accessToken d)
            \<and> nt = \<lparr>token = the (accessToken d), expiresIn = seconds_until (expireAt d) (now w')\<rparr>))
   \<and> (\<forall>srv fuel cfg w0 out w1. api_call srv fuel cfg w0 = Some (out, w1) \<longrightarrow>
         FailedToRefreshToken \<notin> set (console w0) \<longrightarrow> FailedToRefreshToken \<notin> set (console w1))"
proof (intro conjI allI impI)
  assume "api refresh_config w \<noteq> None"
  then have "refreshToken api w \<noteq> None" by (rule refreshToken_settles)
  then obtain r w' where s: "refreshToken api w = Some (r, w')" by (cases "refreshToken api w") auto
  with refreshToken_never_rejects obtain v where "r = Inr v" by (cases r) auto
  with s show "\<exists>v w'. refreshToken api w = Some (Inr v, w')" by blast
next
  fix e w' show "refreshToken api w \<noteq> Some (Inl e, w')" by (rule refreshToken_never_rejects)
next
  fix nt w'
  show "refreshToken api w = Some (Inr (Some nt), w') \<longleftrightarrow>
         (\<exists>r d. api refresh_config w = Some (Inr r, w') \<and> data r = Some d
            \<and> truthy_str (accessToken d)
            \<and> nt = \<lparr>token = the (accessToken d), expiresIn = seconds_until (expireAt d) (now w')\<rparr>)"
    by (rule refreshToken_value)
next
  fix srv fuel cfg w0 out w1
  assume "api_call srv fuel cfg w0 = Some (out, w1)" "FailedToRefreshToken \<notin> set (console w0)"
  with api_call_silent[of srv fuel] show "FailedToRefreshToken \<notin> set (console w1)"
    unfolding keeps_catch_silent_def by blast
qed

lemma w_valid_call: "api_call srv_token (Suc 0) refresh_config w_valid \<noteq> None"
  by (simp add: api_request_def request_interceptor_def w_valid_def store_old_def truthy_str_def
      isTokenExpired_def truthy_num_def bufferTime_def dispatchRequest_def srv_token_def answers_def
      Let_def mergeConfig_def refresh_config_def with_bearer_def)

theorem refreshToken_total_witness:
  "api_call srv_token (Suc 0) refresh_config w_valid \<noteq> None
   \<and> (\<exists>v w'. refreshToken (api_call srv_token (Suc 0)) w_valid = Some (Inr v, w'))
   \<and> FailedToRefreshToken \<notin> set (console w_valid)"
  using refreshToken_total[of "api_call srv_token (Suc 0)" w_valid] w_valid_call
  by (simp add: w_valid_def)

section \<open>Remote API client: refresh on expiry and on 401\<close>

lemma api_call_expired_never_settles:
  "truthy_str (authToken (store w)) \<Longrightarrow> isTokenExpired (now w) (store w) \<Longrightarrow>
   api_call srv fuel cfg w = None"
proof (induction fuel arbitrary: cfg w)
  case 0
  show ?case by simp
next
  case (Suc n)
  have "api_call srv n refresh_config (log TokenExpiredRefreshing w) = None"
    using Suc.prems by (intro Suc.IH) (simp_all add: log_def)
  then have "refreshToken (api_call srv n) (log TokenExpiredRefreshing w) = None"
    by (simp add: refreshToken_def)
  with Suc.prems show ?case
    by (simp add: api_request_def request_interceptor_def)
qed

text \<open>
  C2, evaluated with a stored token inside the five minute buffer.  The request
  interceptor awaits \<open>refreshToken()\<close>, whose request enters the same interceptor with
  the same expired token, and so on: whatever the network would answer and however deep
  the nesting is allowed to go, the call does not settle and nothing is sent.
\<close>

theorem expired_token_call_never_settles:
  "api_call srv fuel cfg w_expired = None"
  by (rule api_call_expired_never_settles)
     (simp_all add: w_expired_def store_old_def truthy_str_def isTokenExpired_def truthy_num_def
        bufferTime_def)

text \<open>
  C1, evaluated where the network answers 401 to the call and 500 to the refresh.  The
  401 is handed to the caller, marked as retried, after exactly one refresh request;
  but the store is what it was: the token, its expiry and the default header are kept.
\<close>

theorem failed_refresh_keeps_token:
  "map_option (\<lambda>(out, w). (out, store w, wire w)) (api_call srv_401_500 (Suc (Suc 0)) get_wallets w_valid)
     = Some (Inl \<lparr>err_response = Some \<lparr>status = 401, data = None\<rparr>,
                   err_config = \<lparr>meth = GET, url = ''/wallets'',
                                  authorization = Some ''Bearer old'', retry = True\<rparr>\<rparr>,
             \<lparr>authToken = Some ''old'', tokenExpiry = Some 1000000000,
               defaultAuthorization = Some ''Bearer old'', timers = []\<rparr>,
             [\<lparr>meth = GET, url = ''/wallets'', authorization = Some ''Bearer old'', retry = False\<rparr>,
              \<lparr>meth = POST, url = ''/auth/refresh-token'', authorization = Some ''Bearer old'',
                retry = False\<rparr>])"
  by code_simp


lemma response_interceptor_no_second_retry:
  "retry (err_config err) \<Longrightarrow> response_interceptor api err w = Some (Inl err, w)"
  by (simp add: response_interceptor_def Let_def)

lemma refreshed_call_is_resent_once:
  "map_option (\<lambda>(out, w). (out, authToken (store w), wire w))
     (api_call srv_401_token_200 (Suc (Suc 0)) get_wallets w_valid)
     = Some (Inr \<lparr>status = 200, data = None\<rparr>, Some ''new'',
             [\<lparr>meth = GET, url = ''/wallets'', authorization = Some ''Bearer old'', retry = False\<rparr>,
              \<lparr>meth = POST, url = ''/auth/refresh-token'', authorization = Some ''Bearer old'',
                retry = False\<rparr>,
              \<lparr>meth = GET, url = ''/wallets'', authorization = Some ''Bearer new'', retry = True\<rparr>])"
  by code_simp




subsection \<open>Calls of \<open>refreshToken\<close> that never return\<close>

lemma api_call_all_401_never_settles:
  assumes srv: "\<forall>k. \<exists>r. answer (srv k) = Some r \<and> status r = 401"
  shows "truthy_str (authToken (store w)) \<Longrightarrow> \<not> retry cfg \<Longrightarrow> api_call srv fuel cfg w = None"
proof (induction fuel arbitrary: cfg w)
  case 0
  show ?case by simp
next
  case (Suc n)
  have rc: "\<not> retry refresh_config" by (simp add: refresh_config_def)
  show ?case
  proof (cases "isTokenExpired (now w) (store w)")
    case True
    have "api_call srv n refresh_config (log TokenExpiredRefreshing w) = None"
      using Suc.prems(1) rc by (intro Suc.IH) (simp_all add: log_def)
    then have "refreshToken (api_call srv n) (log TokenExpiredRefreshing w) = None"
      by (simp add: refreshToken_def)
    with Suc.prems True show ?thesis
      by (simp add: api_request_def request_interceptor_def)
  next
    case False
    let ?cfg1 = "with_bearer (mergeConfig cfg w) w"
    have ri: "request_interceptor (api_call srv n) (mergeConfig cfg w) w = Some (?cfg1, w)"
      using Suc.prems(1) False by (simp add: request_interceptor_def)
    from srv obtain r where r: "answer (srv (length (wire w))) = Some r" "status r = 401" by blast
    let ?w2 = "w\<lparr>wire := wire w @ [?cfg1], now := now w + int (elapsed (srv (length (wire w))))\<rparr>"
    let ?err = "\<lparr>err_response = Some r, err_config = ?cfg1\<rparr>"
    have d: "dispatchRequest srv ?cfg1 w = (Inl ?err, ?w2)"
      using r by (simp add: dispatchRequest_def Let_def)
    have nr: "\<not> retry ?cfg1"
      using Suc.prems(2) by (simp add: with_bearer_def mergeConfig_def split: option.splits)
    have "api_call srv n refresh_config (log UnauthorizedRefreshing ?w2) = None"
      using Suc.prems(1) rc by (intro Suc.IH) (simp_all add: log_def)
    then have "refreshToken (api_call srv n) (log UnauthorizedRefreshing ?w2) = None"
      by (simp add: refreshToken_def)
    then have "response_interceptor (api_call srv n) ?err ?w2 = None"
      using r nr by (simp add: response_interceptor_def Let_def)
    with ri d show ?thesis by (simp add: api_request_def)
  qed
qed

text \<open>
  C10, evaluated where the server answers every request with 401, as it does for a
  revoked token.  The refresh request is a new request without the \<open>_retry\<close> mark, so
  the response interceptor answers its 401 with another \<open>refreshToken()\<close>, whose
  request is answered 401 again, without end: however deep the nesting is allowed to go,
  \<open>refreshToken\<close> returns neither a record nor \<open>null\<close>.
\<close>

theorem refreshToken_never_returns_on_401:
  "refreshToken (api_call srv_all_401 fuel) w_valid = None"
proof -
  have "api_call srv_all_401 fuel refresh_config w_valid = None"
    by (rule api_call_all_401_never_settles)
       (simp_all add: srv_all_401_def answers_def w_valid_def store_old_def truthy_str_def
          refresh_config_def)
  then show ?thesis by (simp add: refreshToken_def)
qed

lemma refreshToken_never_returns_when_expired:
  "truthy_str (authToken (store w)) \<Longrightarrow> isTokenExpired (now w) (store w) \<Longrightarrow>
   refreshToken (api_call srv fuel) w = None"
  by (simp add: refreshToken_def api_call_expired_never_settles)

section \<open>Recipient eligibility\<close>

text \<open>
  C5 as stated fails where the dedicated endpoint answers an error other than 404: with
  a 500 the check does not return eligible, it returns not eligible with the reason
  \<open>Failed to verify recipient: ...\<close>, and \<open>sendToEmail\<close> then throws.
\<close>

theorem eligibility_blocks_on_server_error:
  "checkRecipientEligibility api_check_500 ''friend@example.com''
     = (Some \<lparr>isEligible = False,
               reason = Some ''Failed to verify recipient: Internal server error''\<rparr>,
        [ErrorCheckingRecipientEligibility])"
  by (simp add: checkRecipientEligibility_def api_check_500_def http_error_def errorMessage_def truthy_str_def)

text \<open>
  C5, amended.  The check returns the answer of the dedicated endpoint; an error of that
  endpoint other than 404 gives not eligible with the reason \<open>Failed to verify
  recipient: message\<close>; on a 404 the check looks the user up by email and the recipient
  is eligible iff the user has wallets and the KYC status is \<open>APPROVED\<close>; when the
  lookup answers 404 with a message containing \<open>Cannot GET\<close> (the endpoint is absent)
  the check returns eligible and logs the warning; a lookup answered 400, or 404 without
  that message, gives not eligible (not registered); every other failure of the lookup
  gives eligible.
\<close>

theorem checkRecipientEligibility_tiers:
  "(post_check_recipient env email = Inr body \<longrightarrow>
      checkRecipientEligibility env email = (body, []))
   \<and> (post_check_recipient env email = Inl e \<and> error_status e \<noteq> Some 404 \<longrightarrow>
      checkRecipientEligibility env email =
        (Some \<lparr>isEligible = False, reason = Some (''Failed to verify recipient: '' @ errorMessage e)\<rparr>,
         [ErrorCheckingRecipientEligibility]))
   \<and> (post_check_recipient env email = Inl e \<and> error_status e = Some 404 \<longrightarrow>
        (get_user_by_email env email = Inr (Some found) \<longrightarrow>
           (\<exists>el. checkRecipientEligibility env email = (Some el, [WarnUsingMockImplementation])
              \<and> (isEligible el \<longleftrightarrow> hasWallets found \<and> kycStatus found = Some ''APPROVED'')))
      \<and> (get_user_by_email env email = Inl ue \<and> error_status ue = Some 404
            \<and> (\<exists>m. error_body_message ue = Some m \<and> str_includes m ''Cannot GET'') \<longrightarrow>
           checkRecipientEligibility env email =
             (Some \<lparr>isEligible = True, reason = None\<rparr>,
              [WarnUsingMockImplementation, WarnUserEndpointNotAvailable,
               WarnAllowingTransferByDefault email]))
      \<and> (get_user_by_email env email = Inl ue
            \<and> (error_status ue = Some 400 \<or> error_status ue = Some 404
                  \<and> (\<forall>m. error_body_message ue = Some m \<longrightarrow> \<not> str_includes m ''Cannot GET'')) \<longrightarrow>
           checkRecipientEligibility env email =
             (Some \<lparr>isEligible = False, reason = Some ''Recipient is not registered with Copperx''\<rparr>,
              [WarnUsingMockImplementation]))
      \<and> (get_user_by_email env email = Inl ue \<and> error_status ue \<noteq> Some 404
            \<and> error_status ue \<noteq> Some 400 \<longrightarrow>
           checkRecipientEligibility env email =
             (Some \<lparr>isEligible = True, reason = None\<rparr>,
              [WarnUsingMockImplementation, ErrorCheckingUserStatus]))
      \<and> (get_user_by_email env email = Inr None \<longrightarrow>
           checkRecipientEligibility env email =
             (Some \<lparr>isEligible = True, reason = None\<rparr>,
              [WarnUsingMockImplementation, ErrorCheckingUserStatus])))"
  by (auto simp: checkRecipientEligibility_def on_user_error_def type_error_def split: option.splits)

theorem checkRecipientEligibility_tiers_witness:
  "post_check_recipient api_check_absent ''friend@example.com''
      = Inl (http_error 404 (Some ''Cannot POST /api/transfers/check-recipient''))
   \<and> error_status (http_error 404 (Some ''Cannot POST /api/transfers/check-recipient'')) = Some 404
   \<and> get_user_by_email api_check_absent ''friend@example.com''
      = Inr (Some \<lparr>hasWallets = True, kycStatus = Some ''APPROVED''\<rparr>)
   \<and> (\<exists>el. checkRecipientEligibility api_check_absent ''friend@example.com''
              = (Some el, [WarnUsingMockImplementation]) \<and> isEligible el)"
  using checkRecipientEligibility_tiers[of api_check_absent "''friend@example.com''" _
      "http_error 404 (Some ''Cannot POST /api/transfers/check-recipient'')"
      "\<lparr>hasWallets = True, kycStatus = Some ''APPROVED''\<rparr>"]
  by (simp add: api_check_absent_def http_error_def)




section \<open>Notification bridge: arming is idempotent\<close>



text \<open>
  The \<open>catch\<close> block: when a step of the provider's setup throws, the error is logged
  after the line that announces the setup, nothing is stored for the key, and a client
  exists only if the constructor had returned.
\<close>

lemma arm_when_setup_throws:
  "activePusherInstances b (instanceKey chatId org) = None \<Longrightarrow> setup \<noteq> SetupWorks \<Longrightarrow>
   activePusherInstances (initializeUserPusher setup clk chatId tok org b) = activePusherInstances b
   \<and> bridge_console (initializeUserPusher setup clk chatId tok org b)
       = bridge_console b @ [InitializingPusher (instanceKey chatId org),
                             ErrorInitializingPusher (instanceKey chatId org)]
   \<and> bridge_store (initializeUserPusher setup clk chatId tok org b)
       = setAuthToken tok None clk (bridge_store b)
   \<and> live_clients (initializeUserPusher setup clk chatId tok org b)
       = live_clients b @
           (if setup = SubscribeThrows
            then [\<lparr>client_id = constructed b, client_token = tok, channel = None, bound_events = []\<rparr>]
            else [])"
  by (cases "setup") (simp_all add: initializeUserPusher_def bridge_log_def Let_def)



section \<open>The chat transport\<close>

text \<open>A chat call touches neither the session nor the service calls; it adds one entry to the outbox.\<close>

lemma chat_issued:
  "chat env c x = (r, x') \<Longrightarrow> issued x' = issued x \<and> ctx_session x' = ctx_session x"
  by (auto simp: chat_def Let_def split: if_splits)

lemma chat_keeps:
  "chat env c x = (r, x') \<Longrightarrow> ctx_session x' = ctx_session x \<and> issued x' = issued x"
  by (auto simp: chat_def Let_def split: if_splits)

lemma chat_outbox:
  "chat env c x = (r, x') \<Longrightarrow>
     ctx_session x' = ctx_session x \<and> outbox x' = outbox x @ [(c, chat_ok env (length (outbox x)))]"
  by (auto simp: chat_def Let_def split: if_splits)

section \<open>Transfer confirmation\<close>


lemma reset_transfer_issued: "issued (reset_transfer x) = issued x"
  by (simp add: reset_transfer_def split: option.splits)

lemma confirm_outer_catch_issued: "confirm_outer_catch env x = (r, x') \<Longrightarrow> issued x' = issued x"
  by (auto simp: confirm_outer_catch_def reset_transfer_issued split: prod.splits sum.splits dest: chat_issued)

lemma confirm_inner_catch_issued: "confirm_inner_catch env e x = (r, x') \<Longrightarrow> issued x' = issued x"
  unfolding confirm_inner_catch_def
  by (auto simp: reset_transfer_issued split: prod.splits sum.splits
      dest!: chat_issued confirm_outer_catch_issued)

lemma confirm_finish_issued: "confirm_finish env x = (r, x') \<Longrightarrow> issued x' = issued x"
  unfolding confirm_finish_def
  by (auto simp: reset_transfer_issued split: prod.splits sum.splits
      dest!: chat_issued confirm_inner_catch_issued)

lemma checkAuth_issued: "checkAuth env x = (r, x') \<Longrightarrow> issued x' = issued x \<and> ctx_session x' = ctx_session x"
  by (auto simp: checkAuth_def session_user_def split: option.splits prod.splits sum.splits dest!: chat_issued)

lemma confirm_at_most_one_call:
  assumes "handleTransferConfirm env svc x = (r, x')"
  shows "\<exists>cs. issued x' = issued x @ cs \<and> length cs \<le> 1"
proof -
  obtain a x1 where ca: "checkAuth env x = (a, x1)" by (cases "checkAuth env x")
  from checkAuth_issued[OF ca] have i1: "issued x1 = issued x" by simp
  show ?thesis using assms ca i1
    unfolding handleTransferConfirm_def
    by (auto simp: Let_def split: sum.splits bool.splits option.splits if_splits prod.splits
        dest!: chat_issued confirm_outer_catch_issued confirm_inner_catch_issued confirm_finish_issued)
qed

lemma reset_transfer_session:
  "ctx_session x = Some s \<Longrightarrow>
     ctx_session (reset_transfer x) = Some (s\<lparr>transferState := Some empty_transfer\<rparr>)"
  by (simp add: reset_transfer_def)

lemma chat_result:
  "chat env c x = (r, x') \<Longrightarrow>
     (r = Inr () \<longleftrightarrow> chat_ok env (length (outbox x)))
     \<and> ctx_session x' = ctx_session x \<and> length (outbox x') = Suc (length (outbox x))"
  by (auto simp: chat_def Let_def split: if_splits)

lemma confirm_outer_catch_outcome:
  assumes "confirm_outer_catch env x = (r, x')" and "ctx_session x = Some s"
  shows "(r = Inr () \<longrightarrow> ctx_session x' = Some (s\<lparr>transferState := Some empty_transfer\<rparr>))
     \<and> (\<forall>e. r = Inl e \<longrightarrow> ctx_session x' = Some s)
     \<and> (chat_ok env (length (outbox x)) \<longrightarrow> r = Inr ())"
proof -
  obtain a x1 where c: "chat env (Reply UnexpectedError) x = (a, x1)"
    by (cases "chat env (Reply UnexpectedError) x")
  from chat_result[OF c] assms(2) have k: "a = Inr () \<longleftrightarrow> chat_ok env (length (outbox x))"
    "ctx_session x1 = Some s" by simp_all
  show ?thesis using assms(1) c k
    by (cases a) (auto simp: confirm_outer_catch_def reset_transfer_session)
qed

lemma confirm_inner_catch_outcome:
  assumes "confirm_inner_catch env err x = (r, x')" and "ctx_session x = Some s"
  shows "(r = Inr () \<longrightarrow> ctx_session x' = Some (s\<lparr>transferState := Some empty_transfer\<rparr>))
     \<and> (\<forall>e. r = Inl e \<longrightarrow> ctx_session x' = Some s)
     \<and> (chat_ok env (length (outbox x)) \<or> chat_ok env (Suc (length (outbox x))) \<longrightarrow> r = Inr ())"
proof -
  let ?m = "EditMessageText
               (if error_message err \<noteq> []
                   \<and> (str_includes (error_message err) ''not eligible''
                        \<or> str_includes (error_message err) ''Failed to verify recipient'')
                then TransferFailedRecipient (error_message err)
                else FailedToProcessTransfer)"
  obtain a x1 where c: "chat env ?m x = (a, x1)" by (cases "chat env ?m x")
  from chat_result[OF c] assms(2) have k: "a = Inr () \<longleftrightarrow> chat_ok env (length (outbox x))"
    "ctx_session x1 = Some s" "length (outbox x1) = Suc (length (outbox x))" by simp_all
  show ?thesis
  proof (cases a)
    case (Inr u)
    with assms(1) c k show ?thesis
      by (auto simp: confirm_inner_catch_def reset_transfer_session)
  next
    case (Inl e)
    with assms(1) c have o: "confirm_outer_catch env x1 = (r, x')"
      by (simp add: confirm_inner_catch_def)
    from confirm_outer_catch_outcome[OF o k(2)] k(1,3) Inl show ?thesis by auto
  qed
qed

lemma confirm_finish_outcome:
  assumes "confirm_finish env x = (r, x')" and "ctx_session x = Some s"
  shows "(r = Inr () \<longrightarrow> ctx_session x' = Some (s\<lparr>transferState := Some empty_transfer\<rparr>))
     \<and> (\<forall>e. r = Inl e \<longrightarrow> ctx_session x' = Some s)
     \<and> (chat_ok env (length (outbox x)) \<or> chat_ok env (Suc (length (outbox x))) \<longrightarrow> r = Inr ())"
proof -
  obtain a x1 where c: "chat env (EditMessageText TransferInitiated) x = (a, x1)"
    by (cases "chat env (EditMessageText TransferInitiated) x")
  from chat_result[OF c] assms(2) have k: "a = Inr () \<longleftrightarrow> chat_ok env (length (outbox x))"
    "ctx_session x1 = Some s" "length (outbox x1) = Suc (length (outbox x))" by simp_all
  show ?thesis
  proof (cases a)
    case (Inr u)
    with assms(1) c k show ?thesis
      by (auto simp: confirm_finish_def reset_transfer_session)
  next
    case (Inl e)
    with assms(1) c have o: "confirm_inner_catch env e x1 = (r, x')"
      by (simp add: confirm_finish_def)
    from confirm_inner_catch_outcome[OF o k(2)] k(1,3) Inl show ?thesis by auto
  qed
qed

lemma handleTransferCancel_resets:
  "ctx_session x = Some s \<Longrightarrow>
     ctx_session (snd (handleTransferCancel env x)) = Some (s\<lparr>transferState := Some empty_transfer\<rparr>)"
  by (simp add: handleTransferCancel_def chat_def Let_def reset_transfer_def)

text \<open>
  C3, amended.  A confirmation issues at most one transfer call, whatever the session
  holds and whatever the service and the transport do.  When the session is logged in
  and its transfer state holds a recipient and an amount (and a network, for a transfer
  of type \<open>WALLET\<close>), the handler issues the transfer call of that type and, whenever it
  returns, the transfer state is reset to the empty object, whether the transfer call
  succeeded or failed and whichever \<open>catch\<close> block ended the handler.  The handler
  returns as soon as the transport accepts one of its first two messages; only when the
  transport refuses its messages does the handler throw, and then the session is as it
  was.
\<close>

theorem confirm_resets_transfer_state:
  assumes run: "handleTransferConfirm env svc x = (r, x')"
  shows "(\<exists>cs. issued x' = issued x @ cs \<and> length cs \<le> 1)
     \<and> (ctx_session x = Some s \<and> user s \<noteq> None \<and> transferState s = Some ts
          \<and> truthy_str (recipient ts) \<and> truthy_str (amount ts)
          \<and> (transfer_type ts = Some ''WALLET'' \<longrightarrow> truthy_str (network ts))
        \<longrightarrow> (r = Inr () \<longrightarrow> ctx_session x' = Some (s\<lparr>transferState := Some empty_transfer\<rparr>))
            \<and> (\<forall>e. r = Inl e \<longrightarrow> ctx_session x' = Some s)
            \<and> (chat_ok env (length (outbox x)) \<or> chat_ok env (Suc (length (outbox x)))
                 \<longrightarrow> r = Inr ())
            \<and> issued x' = issued x @
                 (if transfer_type ts = Some ''EMAIL''
                  then [SendToEmail (the (recipient ts)) (the (amount ts))]
                  else if transfer_type ts = Some ''WALLET''
                  then [SendToWallet (the (recipient ts)) (the (amount ts)) (the (network ts))]
                  else []))"
proof (rule conjI, goal_cases)
  case 1
  show ?case using run by (rule confirm_at_most_one_call)
next
  case 2
  show ?case
  proof (rule impI)
    assume h: "ctx_session x = Some s \<and> user s \<noteq> None \<and> transferState s = Some ts
          \<and> truthy_str (recipient ts) \<and> truthy_str (amount ts)
          \<and> (transfer_type ts = Some ''WALLET'' \<longrightarrow> truthy_str (network ts))"
    then obtain u where u: "user s = Some u" by auto
    let ?x1 = "x\<lparr>tokens := setAuthToken (user_token u) None (env_clock env) (tokens x)\<rparr>"
    have ca: "checkAuth env x = (Inr True, ?x1)"
      using h u by (simp add: checkAuth_def session_user_def)
    let ?calls = "(if transfer_type ts = Some ''EMAIL''
                  then [SendToEmail (the (recipient ts)) (the (amount ts))]
                  else if transfer_type ts = Some ''WALLET''
                  then [SendToWallet (the (recipient ts)) (the (amount ts)) (the (network ts))]
                  else [])"
    let ?x2 = "?x1\<lparr>issued := issued ?x1 @ ?calls\<rparr>"
    have s2: "ctx_session ?x2 = Some s" and o2: "outbox ?x2 = outbox x"
      and i2: "issued ?x2 = issued x @ ?calls" using h by simp_all
    have step: "(\<exists>e. confirm_inner_catch env e ?x2 = (r, x')) \<or> confirm_finish env ?x2 = (r, x')"
      using run ca h unfolding handleTransferConfirm_def
      by (auto simp: Let_def split: sum.splits if_splits)
    have iss: "issued x' = issued ?x2"
      using step by (auto dest: confirm_inner_catch_issued confirm_finish_issued)
    from step show "(r = Inr () \<longrightarrow> ctx_session x' = Some (s\<lparr>transferState := Some empty_transfer\<rparr>))
            \<and> (\<forall>e. r = Inl e \<longrightarrow> ctx_session x' = Some s)
            \<and> (chat_ok env (length (outbox x)) \<or> chat_ok env (Suc (length (outbox x)))
                 \<longrightarrow> r = Inr ())
            \<and> issued x' = issued x @ ?calls"
    proof
      assume "\<exists>e. confirm_inner_catch env e ?x2 = (r, x')"
      then obtain e where "confirm_inner_catch env e ?x2 = (r, x')" ..
      from confirm_inner_catch_outcome[OF this s2] o2 iss i2 show ?thesis by simp
    next
      assume "confirm_finish env ?x2 = (r, x')"
      from confirm_finish_outcome[OF this s2] o2 iss i2 show ?thesis by simp
    qed
  qed
qed

text \<open>
  C3 as stated fails on a transfer state that is not empty but lacks the amount: the
  handler answers \<open>Missing recipient or amount\<close> and returns from inside the
  \<open>try\<close> block, leaving the transfer state as it was.
\<close>

theorem confirm_keeps_state_without_amount:
  "map_option transferState (ctx_session (snd (handleTransferConfirm env_ok svc_ok (ctx_of session_missing_amount))))
     = Some (Some \<lparr>transfer_type = Some ''EMAIL'', recipient = Some ''friend@example.com'',
                   amount = None, network = None\<rparr>)
   \<and> outbox (snd (handleTransferConfirm env_ok svc_ok (ctx_of session_missing_amount)))
     = [(Reply MissingRecipientOrAmount, True)]"
  by code_simp

theorem confirm_resets_transfer_state_witness:
  "ctx_session (ctx_of session_ready_email) = Some session_ready_email
   \<and> user session_ready_email = Some alice
   \<and> chat_ok env_first_refused (Suc (length (outbox (ctx_of session_ready_email))))
   \<and> handleTransferConfirm env_first_refused svc_refused (ctx_of session_ready_email)
       = (Inr (), snd (handleTransferConfirm env_first_refused svc_refused (ctx_of session_ready_email)))
   \<and> ctx_session (snd (handleTransferConfirm env_first_refused svc_refused (ctx_of session_ready_email)))
       = Some (session_ready_email\<lparr>transferState := Some empty_transfer\<rparr>)
   \<and> issued (snd (handleTransferConfirm env_first_refused svc_refused (ctx_of session_ready_email)))
       = [SendToEmail ''friend@example.com'' ''100.50'']
   \<and> outbox (snd (handleTransferConfirm env_first_refused svc_refused (ctx_of session_ready_email)))
       = [(EditMessageText FailedToProcessTransfer, False), (Reply UnexpectedError, True)]"
proof -
  define out where "out = handleTransferConfirm env_first_refused svc_refused (ctx_of session_ready_email)"
  have run: "handleTransferConfirm env_first_refused svc_refused (ctx_of session_ready_email) = (fst out, snd out)"
    by (simp add: out_def)
  have ob: "outbox (snd out) = [(EditMessageText FailedToProcessTransfer, False), (Reply UnexpectedError, True)]"
    unfolding out_def by code_simp
  have ok1: "chat_ok env_first_refused (Suc (length (outbox (ctx_of session_ready_email))))"
    by (simp add: env_first_refused_def env_ok_def ctx_of_def)
  from confirm_resets_transfer_state[OF run, of session_ready_email
      "\<lparr>transfer_type = Some ''EMAIL'', recipient = Some ''friend@example.com'',
        amount = Some ''100.50'', network = None\<rparr>"] ok1
  have "fst out = Inr () \<and> ctx_session (snd out) = Some (session_ready_email\<lparr>transferState := Some empty_transfer\<rparr>)
      \<and> issued (snd out) = [SendToEmail ''friend@example.com'' ''100.50'']"
    by (simp add: ctx_of_def session_ready_email_def alice_def truthy_str_def)
  with ob ok1 show ?thesis
    unfolding out_def[symmetric]
    by (simp add: ctx_of_def session_ready_email_def) (metis prod.collapse)
qed

section \<open>The gate of the send flow\<close>


lemma eligibility_guarded_chat:
  assumes "eligibility_guarded env (chat env c x) = (r, x')"
  shows "ctx_session x' = ctx_session x \<and> (\<exists>ok rest. outbox x' = outbox x @ (c, ok) # rest)"
proof -
  obtain a x1 where c: "chat env c x = (a, x1)" by (cases "chat env c x")
  from chat_outbox[OF c] have 1: "ctx_session x1 = ctx_session x"
    and 2: "outbox x1 = outbox x @ [(c, chat_ok env (length (outbox x)))]" by simp_all
  show ?thesis
  proof (cases a)
    case (Inr u)
    with assms c 1 2 show ?thesis by (simp add: eligibility_guarded_def)
  next
    case (Inl e)
    with assms c have "chat env (Reply FailedToVerifyEligibility) x1 = (r, x')"
      by (simp add: eligibility_guarded_def)
    from chat_outbox[OF this] 1 2 show ?thesis by simp
  qed
qed

lemma has_balance_numeric:
  "getWalletBalance wapi = Some b \<Longrightarrow> balance b = Some t \<Longrightarrow> t \<noteq> [] \<Longrightarrow>
   parseFloat wapi t = Num v \<Longrightarrow> has_balance wapi \<longleftrightarrow> v > 0"
  by (auto simp: has_balance_def truthy_str_def le_zero_def)

text \<open>
  The send handler tests, in this order and before it touches the session: a logged-in
  user, approved KYC, a default wallet with an address, and the balance test above.
  When one of them fails the session is left exactly as it was (no transfer state is
  created) and the first message the handler sends names the first test that failed.
  When all hold, the transfer state becomes \<open>{type: EMAIL}\<close>.  On a balance text that
  parses to a number the balance test is \<open>> 0\<close> (\<open>has_balance_numeric\<close>).
\<close>

theorem sendHandler_gate:
  assumes run: "sendHandler env wapi x = (r, x')"
  shows "(\<not> (session_user x \<noteq> None \<and> isKycApproved wapi \<and> has_default_wallet wapi \<and> has_balance wapi)
           \<longrightarrow> ctx_session x' = ctx_session x
               \<and> (\<exists>ok rest. outbox x' = outbox x @
                     (Reply (if session_user x = None then NeedLoginFirst
                             else if \<not> isKycApproved wapi then KycNotApproved
                             else if \<not> has_default_wallet wapi then NoDefaultWallet
                             else InsufficientBalance), ok) # rest))
     \<and> (session_user x \<noteq> None \<and> isKycApproved wapi \<and> has_default_wallet wapi \<and> has_balance wapi
           \<longrightarrow> (\<exists>s. ctx_session x = Some s
                  \<and> ctx_session x' = Some (s\<lparr>transferState :=
                        Some \<lparr>transfer_type = Some ''EMAIL'', recipient = None, amount = None,
                              network = None\<rparr>\<rparr>)))"
proof (cases "session_user x")
  case None
  obtain a x1 where c: "chat env (Reply NeedLoginFirst) x = (a, x1)"
    by (cases "chat env (Reply NeedLoginFirst) x")
  from chat_outbox[OF c] run None c show ?thesis
    by (cases a) (auto simp: sendHandler_def checkAuth_def)
next
  case (Some u)
  then obtain s where s: "ctx_session x = Some s" "user s = Some u"
    by (auto simp: session_user_def split: option.splits)
  let ?x1 = "x\<lparr>tokens := setAuthToken (user_token u) None (env_clock env) (tokens x)\<rparr>"
  have ca: "checkAuth env x = (Inr True, ?x1)" using Some by (simp add: checkAuth_def)
  have g: "eligibility_guarded env
            (if \<not> isKycApproved wapi then chat env (Reply KycNotApproved) ?x1
             else if \<not> has_default_wallet wapi then chat env (Reply NoDefaultWallet) ?x1
             else if \<not> has_balance wapi then chat env (Reply InsufficientBalance) ?x1
             else chat env (Reply EnterRecipientEmail) (start_email_transfer ?x1)) = (r, x')"
    using run ca by (simp add: sendHandler_def)
  show ?thesis
  proof (cases "isKycApproved wapi \<and> has_default_wallet wapi \<and> has_balance wapi")
    case True
    with g have "eligibility_guarded env (chat env (Reply EnterRecipientEmail) (start_email_transfer ?x1)) = (r, x')"
      by simp
    from eligibility_guarded_chat[OF this] True Some s show ?thesis
      by (simp add: start_email_transfer_def empty_transfer_def)
  next
    case False
    then consider "\<not> isKycApproved wapi"
      | "isKycApproved wapi" "\<not> has_default_wallet wapi"
      | "isKycApproved wapi" "has_default_wallet wapi" "\<not> has_balance wapi" by blast
    then show ?thesis
    proof cases
      case 1
      with g have "eligibility_guarded env (chat env (Reply KycNotApproved) ?x1) = (r, x')" by simp
      from eligibility_guarded_chat[OF this] 1 Some show ?thesis by simp
    next
      case 2
      with g have "eligibility_guarded env (chat env (Reply NoDefaultWallet) ?x1) = (r, x')" by simp
      from eligibility_guarded_chat[OF this] 2 Some show ?thesis by simp
    next
      case 3
      with g have "eligibility_guarded env (chat env (Reply InsufficientBalance) ?x1) = (r, x')" by simp
      from eligibility_guarded_chat[OF this] 3 Some show ?thesis by simp
    qed
  qed
qed

lemma canPerformTransfers_true_iff:
  "fst (canPerformTransfers env wapi x) = Inr True \<longleftrightarrow>
     session_user x \<noteq> None \<and> isKycApproved wapi \<and> has_default_wallet wapi \<and> has_balance wapi"
  by (auto simp: canPerformTransfers_def Let_def split: option.splits prod.splits sum.splits)

theorem sendHandler_gate_witness:
  "session_user (ctx_of session_logged_in) \<noteq> None
   \<and> \<not> isKycApproved wapi_kyc_pending
   \<and> ctx_session (snd (sendHandler env_ok wapi_kyc_pending (ctx_of session_logged_in)))
       = Some session_logged_in
   \<and> transferState session_logged_in = None
   \<and> isKycApproved wapi_funded \<and> has_default_wallet wapi_funded \<and> has_balance wapi_funded
   \<and> ctx_session (snd (sendHandler env_ok wapi_funded (ctx_of session_logged_in)))
       = Some (session_logged_in\<lparr>transferState :=
                 Some \<lparr>transfer_type = Some ''EMAIL'', recipient = None, amount = None,
                       network = None\<rparr>\<rparr>)"
proof -
  have k: "\<not> isKycApproved wapi_kyc_pending"
    by code_simp
  have f0: "isKycApproved wapi_funded" by code_simp
  have f: "isKycApproved wapi_funded \<and> has_default_wallet wapi_funded \<and> has_balance wapi_funded"
    using f0 by (simp add: wapi_funded_def has_default_wallet_def
        getDefaultWallet_def has_balance_def getWalletBalance_def truthy_str_def le_zero_def
        parse_sample_def)
  have u: "session_user (ctx_of session_logged_in) \<noteq> None"
    by (simp add: session_user_def ctx_of_def session_logged_in_def)
  have 1: "ctx_session (snd (sendHandler env_ok wapi_kyc_pending (ctx_of session_logged_in)))
       = Some session_logged_in"
    using sendHandler_gate[OF surjective_pairing[of "sendHandler env_ok wapi_kyc_pending (ctx_of session_logged_in)"]] k
    by (simp add: ctx_of_def)
  have 2: "ctx_session (snd (sendHandler env_ok wapi_funded (ctx_of session_logged_in)))
       = Some (session_logged_in\<lparr>transferState :=
                 Some \<lparr>transfer_type = Some ''EMAIL'', recipient = None, amount = None,
                       network = None\<rparr>\<rparr>)"
    using sendHandler_gate[OF surjective_pairing[of "sendHandler env_ok wapi_funded (ctx_of session_logged_in)"]] f u
    by (simp add: ctx_of_def)
  show ?thesis using k f u 1 2 by (simp add: session_logged_in_def)
qed

text \<open>
  C4, evaluated on a balance that is not a number.  The wallet's balance is the text
  \<open>n/a\<close>, which parses to \<open>NaN\<close>; the guard \<open>parseFloat(balance) <= 0\<close> is false for
  it, so a balance that is not greater than 0 passes the gate and the handler creates
  the transfer state.
\<close>

theorem send_flow_starts_on_unparsed_balance:
  "getWalletBalance wapi_balance_not_a_number = Some \<lparr>balance = Some ''n/a''\<rparr>
   \<and> parseFloat wapi_balance_not_a_number ''n/a'' = NaN
   \<and> map_option transferState
       (ctx_session (snd (sendHandler env_ok wapi_balance_not_a_number (ctx_of session_logged_in))))
     = Some (Some \<lparr>transfer_type = Some ''EMAIL'', recipient = None, amount = None, network = None\<rparr>)"
proof -
  have k: "isKycApproved wapi_balance_not_a_number" by code_simp
  show ?thesis using k
    by (simp add: sendHandler_def checkAuth_def session_user_def ctx_of_def session_logged_in_def
      eligibility_guarded_def chat_def env_ok_def Let_def start_email_transfer_def empty_transfer_def
      wapi_balance_not_a_number_def wapi_funded_def
      has_default_wallet_def getDefaultWallet_def has_balance_def getWalletBalance_def
      truthy_str_def le_zero_def parse_sample_def alice_def)
qed




section \<open>Paging through the history\<close>


lemma history_guarded_keeps:
  assumes "history_guarded env (chat env c x) = (r, x')"
  shows "ctx_session x' = ctx_session x \<and> issued x' = issued x"
proof -
  obtain a x1 where c: "chat env c x = (a, x1)" by (cases "chat env c x")
  show ?thesis
  proof (cases a)
    case (Inr u)
    with assms c chat_keeps[OF c] show ?thesis by (simp add: history_guarded_def)
  next
    case (Inl e)
    with assms c have "chat env (Reply FailedToFetchHistory) x1 = (r, x')"
      by (simp add: history_guarded_def)
    from chat_keeps[OF this] chat_keeps[OF c] show ?thesis by simp
  qed
qed

lemma fetchAndDisplayHistory_effect:
  assumes run: "fetchAndDisplayHistory env hapi x = (r, x')"
    and s: "ctx_session x = Some s" and h: "historyState s = Some hs"
  shows "ctx_session x' = Some s
     \<and> issued x' = issued x @ (if chat_ok env (length (outbox x)) then [GetTransfers (page hs) (limit hs)] else [])"
proof -
  let ?x0 = "x\<lparr>ctx_session := Some (s\<lparr>historyState := Some hs\<rparr>)\<rparr>"
  have x0: "?x0 = x" using s h by simp
  obtain a x1 where c1: "chat env (Reply FetchingHistory) x = (a, x1)"
    by (cases "chat env (Reply FetchingHistory) x")
  have k1: "ctx_session x1 = Some s" "issued x1 = issued x" using chat_keeps[OF c1] s by simp_all
  have a_ok: "(\<exists>u. a = Inr u) \<longleftrightarrow> chat_ok env (length (outbox x))"
    using c1 by (auto simp: chat_def Let_def split: if_splits)
  show ?thesis
  proof (cases a)
    case (Inl e)
    with run s h x0 c1 have "chat env (Reply FailedToFetchHistory) x1 = (r, x')"
      by (simp add: fetchAndDisplayHistory_def Let_def)
    from chat_keeps[OF this] k1 a_ok Inl show ?thesis by auto
  next
    case (Inr u)
    let ?x2 = "x1\<lparr>issued := issued x1 @ [GetTransfers (page hs) (limit hs)]\<rparr>"
    have k2: "ctx_session ?x2 = Some s" "issued ?x2 = issued x @ [GetTransfers (page hs) (limit hs)]"
      using k1 by simp_all
    have ok: "chat_ok env (length (outbox x))" using a_ok Inr by blast
    have goal: "\<And>y. ctx_session y = ctx_session ?x2 \<and> issued y = issued ?x2 \<Longrightarrow>
        ctx_session y = Some s \<and> issued y = issued x @ (if chat_ok env (length (outbox x)) then [GetTransfers (page hs) (limit hs)] else [])"
      using k2 ok by simp
    show ?thesis
    proof (cases "get_transfers hapi (page hs) (limit hs)")
      case (Inl e)
      with run s h x0 c1 Inr have "chat env (Reply FailedToFetchHistory) ?x2 = (r, x')"
        by (simp add: fetchAndDisplayHistory_def Let_def)
      from chat_keeps[OF this] show ?thesis by (intro goal) simp
    next
      case Inr2: (Inr b)
      show ?thesis
      proof (cases b)
        case None
        with run s h x0 c1 Inr Inr2 have "chat env (Reply FailedToFetchHistory) ?x2 = (r, x')"
          by (simp add: fetchAndDisplayHistory_def Let_def)
        from chat_keeps[OF this] show ?thesis by (intro goal) simp
      next
        case (Some body)
        obtain a3 x3 where c3: "chat env DeleteMessage ?x2 = (a3, x3)"
          by (cases "chat env DeleteMessage ?x2")
        have k3: "ctx_session x3 = ctx_session ?x2 \<and> issued x3 = issued ?x2"
          using chat_keeps[OF c3] by simp
        show ?thesis
        proof (cases a3)
          case (Inl e)
          with run s h x0 c1 Inr Inr2 Some c3 have "chat env (Reply FailedToFetchHistory) x3 = (r, x')"
            by (simp add: fetchAndDisplayHistory_def Let_def)
          from chat_keeps[OF this] k3 show ?thesis by (intro goal) simp
        next
          case Inr3: (Inr u3)
          show ?thesis
          proof (cases "items body = None \<or> items body = Some []")
            case True
            with run s h x0 c1 Inr Inr2 Some c3 Inr3
            have "history_guarded env (chat env (Reply NoTransactionsYet) x3) = (r, x')"
              by (simp add: fetchAndDisplayHistory_def Let_def)
            from history_guarded_keeps[OF this] k3 show ?thesis by (intro goal) simp
          next
            case False
            with run s h x0 c1 Inr Inr2 Some c3 Inr3
            have "history_guarded env
                    (chat env (Reply (HistoryPage (history_buttons hs body))) x3) = (r, x')"
              by (simp add: fetchAndDisplayHistory_def Let_def)
            from history_guarded_keeps[OF this] k3 show ?thesis by (intro goal) simp
          qed
        qed
      qed
    qed
  qed
qed

text \<open>
  C6, amended.  For a logged-in session on page \<open>p\<close> (page 1 when there is no paging
  state yet), an action leaves the session on page \<open>p - 1\<close> for \<open>prev\<close> with \<open>p > 1\<close>,
  on \<open>p + 1\<close> for \<open>next\<close>, and on \<open>p\<close> otherwise: \<open>prev\<close> on page 1 and \<open>refresh\<close>
  keep the page.  The page size is kept, and that page is the one requested from the
  transfer service (once the loading message went out).  The handler does not compare
  the page with the server's \<open>totalPages\<close>.
\<close>

theorem history_paging:
  assumes run: "handleHistoryPagination env hapi action x = (r, x')"
    and s: "ctx_session x = Some s" and u: "user s \<noteq> None"
    and hs: "hs = (case historyState s of None \<Rightarrow> first_page | Some h \<Rightarrow> h)"
  shows "(\<exists>s'. ctx_session x' = Some s' \<and> (\<exists>hs'. historyState s' = Some hs' \<and> limit hs' = limit hs
            \<and> page hs' = (if action = ''prev'' \<and> page hs > 1 then page hs - 1
                          else if action = ''next'' then page hs + 1
                          else page hs)
            \<and> issued x' = issued x @
                 (if chat_ok env (length (outbox x)) then [GetTransfers (page hs') (limit hs')] else [])))"
proof -
  from u obtain us where us: "user s = Some us" by auto
  let ?x1 = "x\<lparr>tokens := setAuthToken (user_token us) None (env_clock env) (tokens x)\<rparr>"
  have ca: "checkAuth env x = (Inr True, ?x1)" using s us by (simp add: checkAuth_def session_user_def)
  let ?s' = "s\<lparr>historyState := Some (turn_page action hs)\<rparr>"
  let ?x2 = "?x1\<lparr>ctx_session := Some ?s'\<rparr>"
  have f: "fetchAndDisplayHistory env hapi ?x2 = (r, x')"
    using run ca s hs by (simp add: handleHistoryPagination_def Let_def)
  have "ctx_session ?x2 = Some ?s'" "historyState ?s' = Some (turn_page action hs)" by simp_all
  from fetchAndDisplayHistory_effect[OF f this]
  have e: "ctx_session x' = Some ?s'"
    "issued x' = issued x @ (if chat_ok env (length (outbox x))
        then [GetTransfers (page (turn_page action hs)) (limit (turn_page action hs))] else [])"
    by simp_all
  have p: "page (turn_page action hs) = (if action = ''prev'' \<and> page hs > 1 then page hs - 1
                          else if action = ''next'' then page hs + 1 else page hs)"
    "limit (turn_page action hs) = limit hs"
    by (simp_all add: turn_page_def)
  show ?thesis using e p by simp
qed

text \<open>What bounds the page is the keyboard: a page shows \<open>Next\<close> only below \<open>totalPages\<close>.\<close>

lemma next_button_only_below_total:
  "next_button (history_buttons hs body) \<longleftrightarrow> (\<exists>pg. page_info body = Some pg \<and> page hs < totalPages pg)"
  by (simp add: history_buttons_def split: option.splits)

text \<open>
  C6 as stated fails for \<open>next\<close> on the last page (the button of an earlier message can
  still be pressed): the server reports two pages, the session is on page 2, and the
  handler requests page 3 and stays there.
\<close>

theorem history_next_beyond_last_page:
  "get_transfers hapi_two_pages 3 5
     = Inr (Some \<lparr>items = Some [], page_info = Some \<lparr>totalPages = 2, totalItems = 6\<rparr>\<rparr>)
   \<and> issued (snd (handleHistoryPagination env_ok hapi_two_pages ''next'' (ctx_of (session_on_page 2))))
       = [GetTransfers 3 5]
   \<and> map_option (map_option page \<circ> historyState)
       (ctx_session (snd (handleHistoryPagination env_ok hapi_two_pages ''next'' (ctx_of (session_on_page 2)))))
       = Some (Some 3)"
  by (simp add: handleHistoryPagination_def fetchAndDisplayHistory_def checkAuth_def session_user_def
      ctx_of_def session_on_page_def hapi_two_pages_def env_ok_def chat_def Let_def turn_page_def
      history_guarded_def alice_def)

theorem history_paging_witness:
  "ctx_session (ctx_of (session_on_page 1)) = Some (session_on_page 1)
   \<and> user (session_on_page 1) = Some alice
   \<and> historyState (session_on_page 1) = Some \<lparr>page = 1, limit = 5\<rparr>
   \<and> (\<exists>s'. ctx_session (snd (handleHistoryPagination env_ok hapi_two_pages ''prev'' (ctx_of (session_on_page 1)))) = Some s'
         \<and> map_option page (historyState s') = Some 1)
   \<and> issued (snd (handleHistoryPagination env_ok hapi_two_pages ''prev'' (ctx_of (session_on_page 1))))
       = [GetTransfers 1 5]"
proof -
  define out where "out = handleHistoryPagination env_ok hapi_two_pages ''prev'' (ctx_of (session_on_page 1))"
  have run: "handleHistoryPagination env_ok hapi_two_pages ''prev'' (ctx_of (session_on_page 1)) = (fst out, snd out)"
    by (simp add: out_def)
  have a: "ctx_session (ctx_of (session_on_page 1)) = Some (session_on_page 1)"
    by (simp add: ctx_of_def)
  have b: "user (session_on_page 1) \<noteq> None" and b': "user (session_on_page 1) = Some alice"
    by (simp_all add: session_on_page_def)
  have c: "\<lparr>page = 1, limit = 5\<rparr> = (case historyState (session_on_page 1) of None \<Rightarrow> first_page | Some h \<Rightarrow> h)"
    and c': "historyState (session_on_page 1) = Some \<lparr>page = 1, limit = 5\<rparr>"
    by (simp_all add: session_on_page_def)
  from history_paging[OF run a b c]
  obtain s' hs' where r: "ctx_session (snd out) = Some s'" "historyState s' = Some hs'"
     "limit hs' = 5" "page hs' = 1"
     "issued (snd out) = issued (ctx_of (session_on_page 1)) @
        (if chat_ok env_ok (length (outbox (ctx_of (session_on_page 1)))) then [GetTransfers (page hs') (limit hs')] else [])"
    by auto
  have i: "issued (snd out) = [GetTransfers 1 5]"
    using r(3,4,5) by (simp add: ctx_of_def env_ok_def)
  show ?thesis
    unfolding out_def[symmetric] using a b' c' r(1,2,4) i by simp
qed




section \<open>Login: from the email to the OTP\<close>

lemma set_authState_same:
  "ctx_session x = Some s \<Longrightarrow> authState s = Some a \<Longrightarrow> set_authState a x = x"
  by (simp add: set_authState_def)

text \<open>
  C9, amended.  A text that the router takes for the reply to the login's email prompt
  finds a session whose auth state is not awaiting the OTP.  If the text matches the
  email format and the OTP request returns a body, the auth state becomes: this email,
  awaiting the OTP, and the \<open>sid\<close> of that body; the OTP prompt is sent.  If the text
  matches and the OTP request fails, the session is unchanged and the failure message is
  sent.  If the text does not match, the session is unchanged and the message about the
  format is sent.
\<close>

theorem login_email_reply:
  assumes guard: "awaiting_login_email replyText x"
    and run: "on_text_login_email env oapi replyText text x = Some (r, x')"
  shows "\<exists>s a. ctx_session x = Some s \<and> authState s = Some a \<and> awaitingOTP a = False
     \<and> (emailRegex_test text \<longrightarrow>
           (\<forall>body. requestEmailOTP oapi text = Inr (Some body) \<longrightarrow>
              ctx_session x' = Some (s\<lparr>authState :=
                 Some \<lparr>auth_email = Some text, awaitingOTP = True, sid = otp_sid body\<rparr>\<rparr>)
              \<and> (\<exists>rest. outbox x' = outbox x @ (Reply OtpSent, chat_ok env (length (outbox x))) # rest))
         \<and> (\<forall>e. requestEmailOTP oapi text = Inl e \<longrightarrow>
              ctx_session x' = ctx_session x
              \<and> outbox x' = outbox x @ [(Reply FailedToSendOtp, chat_ok env (length (outbox x)))]))
     \<and> (\<not> emailRegex_test text \<longrightarrow>
           ctx_session x' = ctx_session x
           \<and> outbox x' = outbox x @ [(Reply InvalidEmailFormat, chat_ok env (length (outbox x)))])"
proof -
  from guard obtain s a where s: "ctx_session x = Some s" and a: "authState s = Some a"
    and w: "awaitingOTP a = False"
    by (auto simp: awaiting_login_email_def split: option.splits)
  have x0: "set_authState a x = x" using s a by (rule set_authState_same)
  have h: "login_handleEmailInput env oapi text x = (r, x')"
    using run guard by (simp add: on_text_login_email_def)
  have bad: "\<not> emailRegex_test text \<longrightarrow>
           ctx_session x' = ctx_session x
           \<and> outbox x' = outbox x @ [(Reply InvalidEmailFormat, chat_ok env (length (outbox x)))]"
  proof
    assume "\<not> emailRegex_test text"
    with h s a x0 have "chat env (Reply InvalidEmailFormat) x = (r, x')"
      by (simp add: login_handleEmailInput_def Let_def)
    from chat_outbox[OF this] show "ctx_session x' = ctx_session x
           \<and> outbox x' = outbox x @ [(Reply InvalidEmailFormat, chat_ok env (length (outbox x)))]" .
  qed
  have down: "emailRegex_test text \<longrightarrow> (\<forall>e. requestEmailOTP oapi text = Inl e \<longrightarrow>
              ctx_session x' = ctx_session x
              \<and> outbox x' = outbox x @ [(Reply FailedToSendOtp, chat_ok env (length (outbox x)))])"
  proof (intro impI allI)
    fix e
    assume "emailRegex_test text" "requestEmailOTP oapi text = Inl e"
    with h s a x0 have "chat env (Reply FailedToSendOtp) x = (r, x')"
      by (simp add: login_handleEmailInput_def Let_def)
    from chat_outbox[OF this] show "ctx_session x' = ctx_session x
              \<and> outbox x' = outbox x @ [(Reply FailedToSendOtp, chat_ok env (length (outbox x)))]" .
  qed
  have good: "emailRegex_test text \<longrightarrow> (\<forall>body. requestEmailOTP oapi text = Inr (Some body) \<longrightarrow>
              ctx_session x' = Some (s\<lparr>authState :=
                 Some \<lparr>auth_email = Some text, awaitingOTP = True, sid = otp_sid body\<rparr>\<rparr>)
              \<and> (\<exists>rest. outbox x' = outbox x @ (Reply OtpSent, chat_ok env (length (outbox x))) # rest))"
  proof (intro impI allI)
    fix body
    assume m: "emailRegex_test text" and b: "requestEmailOTP oapi text = Inr (Some body)"
    let ?x1 = "set_authState \<lparr>auth_email = Some text, awaitingOTP = True, sid = otp_sid body\<rparr> x"
    have s1: "ctx_session ?x1 = Some (s\<lparr>authState :=
                 Some \<lparr>auth_email = Some text, awaitingOTP = True, sid = otp_sid body\<rparr>\<rparr>)"
      and o1: "outbox ?x1 = outbox x"
      using s by (simp_all add: set_authState_def)
    obtain c x2 where c: "chat env (Reply OtpSent) ?x1 = (c, x2)" by (cases "chat env (Reply OtpSent) ?x1")
    from chat_outbox[OF c] s1 o1
    have k2: "ctx_session x2 = Some (s\<lparr>authState :=
                 Some \<lparr>auth_email = Some text, awaitingOTP = True, sid = otp_sid body\<rparr>\<rparr>)"
      "outbox x2 = outbox x @ [(Reply OtpSent, chat_ok env (length (outbox x)))]" by simp_all
    show "ctx_session x' = Some (s\<lparr>authState :=
                 Some \<lparr>auth_email = Some text, awaitingOTP = True, sid = otp_sid body\<rparr>\<rparr>)
              \<and> (\<exists>rest. outbox x' = outbox x @ (Reply OtpSent, chat_ok env (length (outbox x))) # rest)"
    proof (cases c)
      case (Inr u)
      with h s a x0 m b c have "x' = x2" by (simp add: login_handleEmailInput_def Let_def)
      with k2 show ?thesis by simp
    next
      case (Inl e)
      with h s a x0 m b c have "chat env (Reply FailedToSendOtp) x2 = (r, x')"
        by (simp add: login_handleEmailInput_def Let_def)
      from chat_outbox[OF this] k2 show ?thesis by simp
    qed
  qed
  show ?thesis using s a w good down bad by blast
qed

text \<open>
  C9 as stated fails when the OTP request fails: the text \<open>user@example.com\<close> matches
  the format, the endpoint answers 500, and the auth state still does not await the OTP
  and holds no \<open>sid\<close>.
\<close>

theorem login_email_reply_when_endpoint_down:
  "emailRegex_test ''user@example.com''
   \<and> on_text_login_email env_ok oapi_down login_prompt ''user@example.com''
         (ctx_of session_after_login_command)
       = Some (login_handleEmailInput env_ok oapi_down ''user@example.com''
                 (ctx_of session_after_login_command))
   \<and> map_option authState
         (ctx_session (snd (login_handleEmailInput env_ok oapi_down ''user@example.com''
                              (ctx_of session_after_login_command))))
       = Some (Some \<lparr>auth_email = None, awaitingOTP = False, sid = None\<rparr>)
   \<and> outbox (snd (login_handleEmailInput env_ok oapi_down ''user@example.com''
                      (ctx_of session_after_login_command)))
       = [(Reply FailedToSendOtp, True)]"
  by code_simp

lemma sample_guard: "awaiting_login_email login_prompt (ctx_of session_after_login_command)"
  by code_simp

lemma sample_email: "emailRegex_test ''user@example.com''"
  by code_simp

theorem login_email_reply_witness:
  "awaiting_login_email login_prompt (ctx_of session_after_login_command)
   \<and> emailRegex_test ''user@example.com''
   \<and> requestEmailOTP oapi_ok ''user@example.com'' = Inr (Some \<lparr>otp_sid = Some ''sid-1''\<rparr>)
   \<and> map_option (\<lambda>(r, x'). map_option authState (ctx_session x'))
        (on_text_login_email env_ok oapi_ok login_prompt ''user@example.com''
           (ctx_of session_after_login_command))
     = Some (Some (Some \<lparr>auth_email = Some ''user@example.com'', awaitingOTP = True,
                         sid = Some ''sid-1''\<rparr>))"
proof -
  define out where "out = login_handleEmailInput env_ok oapi_ok ''user@example.com'' (ctx_of session_after_login_command)"
  have run: "on_text_login_email env_ok oapi_ok login_prompt ''user@example.com''
           (ctx_of session_after_login_command) = Some (fst out, snd out)"
    using sample_guard by (simp add: on_text_login_email_def out_def)
  have b: "requestEmailOTP oapi_ok ''user@example.com'' = Inr (Some \<lparr>otp_sid = Some ''sid-1''\<rparr>)"
    by (simp add: oapi_ok_def)
  from login_email_reply[OF sample_guard run] sample_email b
  have "ctx_session (snd out) = Some (session_after_login_command\<lparr>authState :=
          Some \<lparr>auth_email = Some ''user@example.com'', awaitingOTP = True, sid = Some ''sid-1''\<rparr>\<rparr>)"
    by (auto simp: ctx_of_def)
  then show ?thesis using sample_guard sample_email b run by (simp add: case_prod_beta)
qed


end
